theory Spec2Isabelle
  imports Complex_Main
begin

section \<open>Steering analysis (sae\_ts/baselines/analysis.py)\<close>

text \<open>
  A shallow embedding of \<^verbatim>\<open>src/sae_ts/baselines/analysis.py\<close>. Tensors of floats are
  lists of reals (a vector) and lists of rows (a matrix), and the arithmetic on them is
  exact real arithmetic. The code computes in float32: it rounds, and it overflows to
  \<^verbatim>\<open>inf\<close> and underflows to 0 where the reals do not. Rounding is not modelled: a vector
  of the model is what the code computes up to rounding, and "unit norm" below is exact
  where the code's is up to rounding. Overflow, underflow and the division of a zero
  vector by its norm 0 are kept apart: a tensor computed outside the range in which
  float32 neither overflows nor underflows is no vector of the model but the value
  \<open>Undetermined n\<close>, of which nothing is claimed. Inside that range rounding can still
  decide an outcome (a difference that is not zero exactly may be rounded to zero); what
  is proved below of a vector is proved of the exact one. Every \<^verbatim>\<open>raise\<close> of the Python is
  a value \<open>Inl e\<close>. \<open>load_rotation_steer\<close>, which the script never calls, is left out.
\<close>

subsection \<open>Errors and JSON values\<close>

datatype json =
    JNull
  | JBool bool
  | JInt int
  | JFloat real
  | JStr string
  | JList "json list"
  | JObj "(string \<times> json) list"

text \<open>
  \<open>ValueError msg v\<close> is the \<^verbatim>\<open>ValueError(f"<msg>{v}")\<close> of \<open>load_sae_model\<close>: the literal
  text of the f-string and the value it interpolates. \<open>EmptyMax\<close>, \<open>NotInList\<close> and
  \<open>RangeStepZero\<close> are the \<^verbatim>\<open>ValueError\<close>s of \<^verbatim>\<open>max([])\<close>, of \<^verbatim>\<open>list.index\<close> and of a
  \<^verbatim>\<open>range\<close> with step 0; \<open>ShapeError\<close> and \<open>EmptyStack\<close> are torch's \<^verbatim>\<open>RuntimeError\<close> on
  shapes that do not fit and on stacking no tensor; \<open>WeightsNotFound big layer\<close> is the
  \<^verbatim>\<open>FileNotFoundError\<close> of \<^verbatim>\<open>torch.load\<close> on the adapter's file. \<open>LibraryError\<close> is a
  failure inside a collaborator that is not part of this file (model hub, sampler,
  evaluator). \<open>FeatureError\<close> is an exception of Python or torch on an entry of the
  feature list that cannot be used: the \<^verbatim>\<open>ValueError\<close> or \<^verbatim>\<open>TypeError\<close> of the unpacking
  \<^verbatim>\<open>for ft_id, ft_scale in ...\<close>, the \<^verbatim>\<open>IndexError\<close> or \<^verbatim>\<open>TypeError\<close> of an index or a
  factor of a wrong type; these classes are not told apart. \<open>OutsideModel\<close> is the one
  value that is no exception: it marks a feature id or scale (a list other than a list
  of integers, given as id; a list or an integer beyond 64 bits, given as scale) that
  torch may accept and whose handling is not followed here.
\<close>

datatype error =
    ValueError string json
  | EmptyMax
  | KeyError string
  | IndexError
  | TypeError
  | AttributeError
  | ZeroDivisionError
  | FileNotFoundError string
  | JSONDecodeError string
  | OSError string
  | ShapeError
  | EmptyStack
  | NotInList
  | RangeStepZero
  | WeightsNotFound bool json
  | FeatureError
  | OutsideModel
  | LibraryError string

definition and_then :: "error + 'a \<Rightarrow> ('a \<Rightarrow> error + 'b) \<Rightarrow> error + 'b" where
  "and_then m f = (case m of Inl e \<Rightarrow> Inl e | Inr x \<Rightarrow> f x)"

definition lift_lib :: "string + 'a \<Rightarrow> error + 'a" where
  "lift_lib m = (case m of Inl msg \<Rightarrow> Inl (LibraryError msg) | Inr x \<Rightarrow> Inr x)"

subsection \<open>Tensors\<close>

type_synonym vec = "real list"
type_synonym mat = "real list list"

record adapter =
  W :: mat
  b :: vec

definition dot :: "vec \<Rightarrow> vec \<Rightarrow> real" where
  "dot u v = sum_list (map (\<lambda>(x, y). x * y) (zip u v))"

text \<open>The Euclidean norm of a vector of reals, exactly.\<close>

definition l2norm :: "vec \<Rightarrow> real" where
  "l2norm v = sqrt (sum_list (map (\<lambda>x. x * x) v))"

text \<open>
  The largest finite float32 is just below \<open>2 ^ 128\<close>, the smallest normal one is
  \<open>1 / 2 ^ 126\<close>. Numbers of magnitude at most \<open>2 ^ 40\<close> have squares and products of at
  most \<open>2 ^ 80\<close>, so that sums of them stay finite; a norm of at least \<open>1 / 2 ^ 40\<close> has a
  square far above the point of underflow. Inside these bounds float32 follows the
  exact arithmetic up to rounding; outside them it need not (an overflowed norm is
  \<^verbatim>\<open>inf\<close> and the quotient by it 0, an underflowed norm is 0 and the quotient \<^verbatim>\<open>nan\<close> or
  \<^verbatim>\<open>inf\<close>).
\<close>

definition bound32 :: real where
  "bound32 = 2 ^ 40"

definition bounded :: "vec \<Rightarrow> bool" where
  "bounded v \<longleftrightarrow> list_all (\<lambda>x. \<bar>x\<bar> \<le> bound32) v"

text \<open>
  A tensor computed by the code is a vector of reals, \<open>Vec v\<close>, when exact arithmetic
  determines it, or \<open>Undetermined n\<close>: \<open>n\<close> float32 entries that it does not determine.
  These are the entries computed from a number outside the bounds above or from the
  division of a zero vector by its norm: \<^verbatim>\<open>nan\<close> (0/0), \<^verbatim>\<open>inf\<close>, zeros left by an
  overflowed norm, or what rounding made of an exact zero; also the entries of a tensor
  of more than one dimension. The empty vector has no entry to be undetermined.
\<close>

datatype tensor = Vec vec | Undetermined nat

definition numel :: "tensor \<Rightarrow> nat" where
  "numel t = (case t of Vec v \<Rightarrow> length v | Undetermined n \<Rightarrow> n)"

definition undetermined :: "nat \<Rightarrow> tensor" where
  "undetermined n = (if n = 0 then Vec [] else Undetermined n)"

text \<open>
  \<^verbatim>\<open>torch.norm(v)\<close>, the float32 computation of the L2 norm: the exact norm (up to
  rounding) when that lies within the bounds, and not determined otherwise. The norm 0
  of a zero vector is outside the bounds.
\<close>

definition norm32 :: "vec \<Rightarrow> real option" where
  "norm32 v =
     (if 1 / bound32 \<le> l2norm v \<and> l2norm v \<le> bound32 then Some (l2norm v) else None)"

text \<open>
  \<^verbatim>\<open>v / torch.norm(v)\<close> (also with \<^verbatim>\<open>dim=-1, keepdim=True\<close>, the same on a vector). There
  is no guard against a zero norm in the code, and none here: the division raises
  nothing.
\<close>

definition normalise :: "tensor \<Rightarrow> tensor" where
  "normalise t =
     (case t of
        Undetermined n \<Rightarrow> Undetermined n
      | Vec v \<Rightarrow>
          if v = [] then Vec []
          else (case norm32 v of
                  None \<Rightarrow> Undetermined (length v)
                | Some n \<Rightarrow> Vec (map (\<lambda>x. x / n) v)))"

text \<open>\<^verbatim>\<open>W @ v\<close> for a matrix and a vector, exactly: every row has the length of \<open>v\<close>.\<close>

definition matvec :: "mat \<Rightarrow> vec \<Rightarrow> error + vec" where
  "matvec M v =
     (if list_all (\<lambda>r. length r = length v) M then Inr (map (\<lambda>r. dot r v) M)
      else Inl ShapeError)"

definition ncols :: "mat \<Rightarrow> nat" where
  "ncols M = (case M of [] \<Rightarrow> 0 | r # _ \<Rightarrow> length r)"

definition column :: "mat \<Rightarrow> nat \<Rightarrow> vec" where
  "column M j = map (\<lambda>r. r ! j) M"

text \<open>\<^verbatim>\<open>v @ M\<close> for a vector and a matrix, exactly: \<open>M\<close> has as many rows as \<open>v\<close> has entries.\<close>

definition vecmat :: "vec \<Rightarrow> mat \<Rightarrow> error + vec" where
  "vecmat v M =
     (if length v = length M \<and> list_all (\<lambda>r. length r = ncols M) M
      then Inr (map (\<lambda>j. dot v (column M j)) [0..<ncols M])
      else Inl ShapeError)"

text \<open>\<^verbatim>\<open>u - v\<close> with torch's broadcasting of a one-element tensor.\<close>

definition vsub :: "vec \<Rightarrow> vec \<Rightarrow> error + vec" where
  "vsub u v =
     (if length u = length v then Inr (map (\<lambda>(x, y). x - y) (zip u v))
      else if length v = 1 then Inr (map (\<lambda>x. x - hd v) u)
      else if length u = 1 then Inr (map (\<lambda>y. hd u - y) v)
      else Inl ShapeError)"

definition vscale :: "vec \<Rightarrow> real \<Rightarrow> vec" where
  "vscale v c = map (\<lambda>x. x * c) v"

text \<open>
  The same operations as the code's float32 tensors have them. The shapes decide on the
  exception as before; the products are determined when every number multiplied is
  within the bound.
\<close>

definition tmatvec :: "mat \<Rightarrow> vec \<Rightarrow> error + tensor" where
  "tmatvec M v =
     and_then (matvec M v) (\<lambda>x.
     Inr (if list_all bounded M \<and> bounded v then Vec x else undetermined (length x)))"

definition tscale :: "tensor \<Rightarrow> real \<Rightarrow> tensor" where
  "tscale t c =
     (case t of
        Vec v \<Rightarrow> if bounded v \<and> \<bar>c\<bar> \<le> bound32 then Vec (vscale v c) else undetermined (length v)
      | Undetermined n \<Rightarrow> Undetermined n)"

definition tsub :: "tensor \<Rightarrow> tensor \<Rightarrow> error + tensor" where
  "tsub s t =
     (case (s, t) of
        (Vec u, Vec v) \<Rightarrow> and_then (vsub u v) (\<lambda>d. Inr (Vec d))
      | _ \<Rightarrow>
          if numel s = numel t then Inr (undetermined (numel s))
          else if numel t = 1 then Inr (undetermined (numel s))
          else if numel s = 1 then Inr (undetermined (numel t))
          else Inl ShapeError)"

definition tvecmat :: "tensor \<Rightarrow> mat \<Rightarrow> error + tensor" where
  "tvecmat t M =
     (case t of
        Vec v \<Rightarrow>
          and_then (vecmat v M) (\<lambda>x.
          Inr (if bounded v \<and> list_all bounded M then Vec x else undetermined (length x)))
      | Undetermined n \<Rightarrow>
          if n = length M \<and> list_all (\<lambda>r. length r = ncols M) M
          then Inr (undetermined (ncols M))
          else Inl ShapeError)"

subsection \<open>single\_step\_steer and pinverse\_steer\<close>

definition single_step_steer :: "adapter \<Rightarrow> vec \<Rightarrow> real \<Rightarrow> error + tensor" where
  "single_step_steer adapter target bias_scale =
     and_then (tmatvec (W adapter) target) (\<lambda>steer_vec.
     let steer_vec = normalise steer_vec in
     and_then (tmatvec (W adapter) (b adapter)) (\<lambda>bias_vec.
     let bias_vec = normalise bias_vec;
         bias_vec = tscale bias_vec bias_scale in
     and_then (tsub steer_vec bias_vec) (\<lambda>steer.
     Inr (normalise steer))))"

text \<open>
  \<^verbatim>\<open>torch.linalg.pinv\<close> is the library's; it is the parameter \<open>pinv\<close>. What it computes is
  fixed by the four Penrose equations, \<open>penrose M P\<close>.
\<close>

definition matmul :: "mat \<Rightarrow> mat \<Rightarrow> mat" where
  "matmul A B = map (\<lambda>r. map (\<lambda>j. dot r (column B j)) [0..<ncols B]) A"

definition mtranspose :: "mat \<Rightarrow> mat" where
  "mtranspose M = map (\<lambda>j. column M j) [0..<ncols M]"

definition penrose :: "mat \<Rightarrow> mat \<Rightarrow> bool" where
  "penrose M P \<longleftrightarrow>
     matmul (matmul M P) M = M \<and> matmul (matmul P M) P = P \<and>
     mtranspose (matmul M P) = matmul M P \<and> mtranspose (matmul P M) = matmul P M"

definition pinverse_steer :: "(mat \<Rightarrow> mat) \<Rightarrow> adapter \<Rightarrow> vec \<Rightarrow> real \<Rightarrow> error + tensor" where
  "pinverse_steer pinv adapter target target_scale =
     (let target = normalise (Vec target);
          target = tscale target target_scale;
          W_pinv = pinv (W adapter)
      in and_then (tsub target (Vec (b adapter))) (\<lambda>d.
         tvecmat d W_pinv))"

subsection \<open>Python lists, dictionaries and ranges\<close>

text \<open>\<^verbatim>\<open>xs[i]\<close>: a negative index counts from the end, an index out of range raises.\<close>

definition py_index :: "int \<Rightarrow> nat \<Rightarrow> error + nat" where
  "py_index i n =
     (let j = (if i < 0 then int n + i else i)
      in if 0 \<le> j \<and> j < int n then Inr (nat j) else Inl IndexError)"

definition py_get :: "'a list \<Rightarrow> int \<Rightarrow> error + 'a" where
  "py_get xs i = and_then (py_index i (length xs)) (\<lambda>j. Inr (xs ! j))"

definition py_set :: "'a list \<Rightarrow> int \<Rightarrow> 'a \<Rightarrow> error + 'a list" where
  "py_set xs i v = and_then (py_index i (length xs)) (\<lambda>j. Inr (xs[j := v]))"

text \<open>
  \<^verbatim>\<open>list(range(start, stop, step))\<close>, with the element count that CPython computes.
\<close>

definition py_range :: "int \<Rightarrow> int \<Rightarrow> int \<Rightarrow> error + int list" where
  "py_range start stop step =
     (if step = 0 then Inl RangeStepZero
      else if 0 < step
        then Inr (map (\<lambda>k. start + int k * step) [0..<nat ((stop - start + step - 1) div step)])
        else Inr (map (\<lambda>k. start + int k * step) [0..<nat ((start - stop - step - 1) div (- step))]))"

text \<open>
  A dictionary read by \<^verbatim>\<open>json.load\<close> is \<open>JObj\<close> of its members in file order; of a
  repeated key the last member counts.
\<close>

definition dict_lookup :: "(string \<times> json) list \<Rightarrow> string \<Rightarrow> json option" where
  "dict_lookup kvs k = map_of (rev kvs) k"

text \<open>\<^verbatim>\<open>j[k]\<close> for a string key \<open>k\<close>.\<close>

definition json_key :: "json \<Rightarrow> string \<Rightarrow> error + json" where
  "json_key j k =
     (case j of
        JObj kvs \<Rightarrow> (case dict_lookup kvs k of None \<Rightarrow> Inl (KeyError k) | Some v \<Rightarrow> Inr v)
      | _ \<Rightarrow> Inl TypeError)"

text \<open>\<^verbatim>\<open>j.get(k, default)\<close>: only a dictionary has \<^verbatim>\<open>get\<close>.\<close>

definition json_get :: "json \<Rightarrow> string \<Rightarrow> json \<Rightarrow> error + json" where
  "json_get j k d =
     (case j of
        JObj kvs \<Rightarrow> (case dict_lookup kvs k of None \<Rightarrow> Inr d | Some v \<Rightarrow> Inr v)
      | _ \<Rightarrow> Inl AttributeError)"

text \<open>\<^verbatim>\<open>j[0]\<close>. No key of a JSON object is the integer 0.\<close>

definition json_first :: "json \<Rightarrow> error + json" where
  "json_first j =
     (case j of
        JList xs \<Rightarrow> (case xs of [] \<Rightarrow> Inl IndexError | x # _ \<Rightarrow> Inr x)
      | JStr cs \<Rightarrow> (case cs of [] \<Rightarrow> Inl IndexError | c # _ \<Rightarrow> Inr (JStr [c]))
      | JObj kvs \<Rightarrow> Inl (KeyError ''0'')
      | _ \<Rightarrow> Inl TypeError)"

text \<open>\<^verbatim>\<open>os.path.join(path, name)\<close> for a relative \<open>name\<close>, as all names joined here are.\<close>

definition path_join :: "string \<Rightarrow> string \<Rightarrow> string" where
  "path_join p name =
     (if p = [] then name
      else if last p = CHR ''/'' then p @ name
      else p @ ''/'' @ name)"

subsection \<open>The world: files, weights and outputs\<close>

datatype file_content = JsonFile json | NotJson

record sae =
  W_enc :: mat
  W_dec :: mat

text \<open>One entry of the list returned by the evaluator for a rubric: \<^verbatim>\<open>item['score']\<close>.\<close>

record rating =
  score :: real

record result =
  result_path :: string
  result_method :: string
  result_goal_name :: json
  max_product :: real
  scale_at_max :: int

record graph_data =
  graph_path :: string
  graph_method :: string
  graph_goal_name :: json
  scales :: "int list"
  avg_coherence :: "real list"
  avg_score :: "real list"
  product :: "real list"
  individual_scores :: "real list list"
  individual_coherences :: "real list list"
  individual_products :: "real list list"

datatype out_file =
    TextsOut "(int \<times> string list) list"
  | FigureOut string "int list" "real list" "real list" "real list"
  | ResultsOut "result list"
  | GraphsOut "graph_data list"

text \<open>
  \<open>files\<close> are the JSON files that can be opened for reading; \<open>weights big layer\<close> is the
  adapter stored in \<^verbatim>\<open>adapter_9b_layer_{layer}.pt\<close> (\<open>big\<close>) or \<^verbatim>\<open>adapter_layer_{layer}.pt\<close>;
  \<open>writable\<close> tells whether a path can be opened for writing; \<open>opened\<close> and \<open>written\<close>
  log, in order, what was opened for reading and what was written.
\<close>

record world =
  files :: "string \<Rightarrow> file_content option"
  weights :: "bool \<Rightarrow> json \<Rightarrow> adapter option"
  writable :: "string \<Rightarrow> bool"
  opened :: "string list"
  written :: "(string \<times> out_file) list"

text \<open>
  The collaborators that are not in this file, as parameters: the two autoencoder
  back-ends (\<^verbatim>\<open>SAE.from_pretrained\<close> on release and id; the hub download and parameter
  load of the gemmascope branch), \<^verbatim>\<open>normalise_decoder\<close>, \<^verbatim>\<open>torch.linalg.pinv\<close>, the
  activation-difference vector of a configuration with its layer number
  (\<^verbatim>\<open>load_act_steer\<close> and \<^verbatim>\<open>get_activation_steering\<close>), the sampler \<^verbatim>\<open>steer_model\<close> on
  vector, hook point, prompt, scale and sample count, and the evaluator
  \<^verbatim>\<open>multi_criterion_evaluation\<close> on texts, rubrics and prompt. A string on the left is
  a failure inside the collaborator.
\<close>

record env =
  from_pretrained :: "json \<Rightarrow> json \<Rightarrow> string + sae"
  normalise_decoder :: "sae \<Rightarrow> sae"
  gemmascope :: "json \<Rightarrow> json \<Rightarrow> string + sae"
  linalg_pinv :: "mat \<Rightarrow> mat"
  act_steer :: "string \<Rightarrow> string + (vec \<times> int)"
  steer_model :: "tensor \<Rightarrow> json \<Rightarrow> json \<Rightarrow> int \<Rightarrow> nat \<Rightarrow> string + string list"
  multi_criterion_evaluation ::
    "string list \<Rightarrow> json list \<Rightarrow> json \<Rightarrow> string + (rating list \<times> rating list)"

type_synonym 'a io = "world \<Rightarrow> (error + 'a) \<times> world"

definition io_bind :: "'a io \<Rightarrow> ('a \<Rightarrow> 'b io) \<Rightarrow> 'b io" where
  "io_bind m f w = (case m w of (Inl e, w') \<Rightarrow> (Inl e, w') | (Inr x, w') \<Rightarrow> f x w')"

definition io_pure :: "error + 'a \<Rightarrow> 'a io" where
  "io_pure r w = (r, w)"

text \<open>\<^verbatim>\<open>with open(p, 'r') as f: json.load(f)\<close>\<close>

definition read_json :: "string \<Rightarrow> json io" where
  "read_json p w =
     (case files w p of
        None \<Rightarrow> (Inl (FileNotFoundError p), w)
      | Some f \<Rightarrow>
          (case f of
             NotJson \<Rightarrow> (Inl (JSONDecodeError p), w\<lparr>opened := opened w @ [p]\<rparr>)
           | JsonFile j \<Rightarrow> (Inr j, w\<lparr>opened := opened w @ [p]\<rparr>)))"

text \<open>Writing a whole file: \<^verbatim>\<open>json.dump\<close> into \<^verbatim>\<open>open(p, 'w')\<close>, or \<^verbatim>\<open>fig.write_image(p)\<close>.\<close>

definition write_file :: "string \<Rightarrow> out_file \<Rightarrow> unit io" where
  "write_file p out w =
     (if writable w p then (Inr (), w\<lparr>written := written w @ [(p, out)]\<rparr>)
      else (Inl (OSError p), w))"

text \<open>\<^verbatim>\<open>torch.load\<close> of the adapter's file.\<close>

definition load_adapter :: "bool \<Rightarrow> json \<Rightarrow> adapter io" where
  "load_adapter big_model layer w =
     (case weights w big_model layer of
        None \<Rightarrow> (Inl (WeightsNotFound big_model layer), w)
      | Some a \<Rightarrow> (Inr a, w))"

subsection \<open>load\_sae\_model\<close>

definition load_sae_model :: "env \<Rightarrow> json \<Rightarrow> error + sae" where
  "load_sae_model ev config =
     and_then (json_get config ''sae_load_method'' (JStr ''saelens'')) (\<lambda>sae_load_method.
       if sae_load_method = JStr ''saelens'' then
         and_then (json_key config ''sae'') (\<lambda>release.
         and_then (json_key config ''layer'') (\<lambda>sae_id.
         and_then (lift_lib (from_pretrained ev release sae_id)) (\<lambda>s.
         Inr (normalise_decoder ev s))))
       else if sae_load_method = JStr ''gemmascope'' then
         and_then (json_key config ''repo_id'') (\<lambda>repo_id.
         and_then (json_key config ''filename'') (\<lambda>filename.
         lift_lib (gemmascope ev repo_id filename)))
       else Inl (ValueError ''Unknown sae_load_method: '' sae_load_method))"

subsection \<open>The feature list of a configuration\<close>

text \<open>
  What \<^verbatim>\<open>for ... in config['features']\<close> iterates: the elements of a list, the keys of a
  dictionary in the order of their first occurrence, the characters of a string; nothing
  else can be iterated.
\<close>

definition feature_list :: "json \<Rightarrow> error + json list" where
  "feature_list j =
     (case j of
        JList xs \<Rightarrow> Inr xs
      | JObj kvs \<Rightarrow> Inr (map JStr (rev (remdups (rev (map fst kvs)))))
      | JStr cs \<Rightarrow> Inr (map (\<lambda>c. JStr [c]) cs)
      | _ \<Rightarrow> Inl TypeError)"

text \<open>
  The unpacking \<^verbatim>\<open>ft_id, ft_scale = element\<close>. An element that is a string or a dictionary
  of two members unpacks into two strings, which are neither an index nor a factor: it
  raises one line later, and is an error here at once.
\<close>

definition feature_entry :: "json \<Rightarrow> error + (json \<times> json)" where
  "feature_entry j =
     (case j of
        JList [ft_id, ft_scale] \<Rightarrow> Inr (ft_id, ft_scale)
      | _ \<Rightarrow> Inl FeatureError)"

text \<open>
  \<^verbatim>\<open>ft_id\<close> as the index of a torch tensor. An integer addresses one position (of a
  matrix: one row). A list of integers addresses each of its positions. \<^verbatim>\<open>True\<close> and
  \<^verbatim>\<open>None\<close> address the whole tensor, under one more leading dimension of size 1;
  \<^verbatim>\<open>False\<close> addresses nothing, under a leading dimension of size 0. A float, a string and
  a dictionary are no index.
\<close>

datatype ft_index = Position int | Several "int list" | Everywhere | Nowhere

definition json_int :: "json \<Rightarrow> int option" where
  "json_int j = (case j of JInt i \<Rightarrow> Some i | _ \<Rightarrow> None)"

definition feature_id :: "json \<Rightarrow> error + ft_index" where
  "feature_id j =
     (case j of
        JInt i \<Rightarrow> Inr (Position i)
      | JBool c \<Rightarrow> Inr (if c then Everywhere else Nowhere)
      | JNull \<Rightarrow> Inr Everywhere
      | JList xs \<Rightarrow>
          if xs \<noteq> [] \<and> list_all (\<lambda>x. json_int x \<noteq> None) xs
          then Inr (Several (map (\<lambda>x. the (json_int x)) xs))
          else Inl OutsideModel
      | _ \<Rightarrow> Inl FeatureError)"

text \<open>
  \<^verbatim>\<open>ft_scale\<close> as a number: an integer, a float, or a boolean (\<^verbatim>\<open>True\<close> counts as 1,
  \<^verbatim>\<open>False\<close> as 0). \<^verbatim>\<open>None\<close>, a string and a dictionary are no number. What torch makes of
  an integer that does not fit 64 bits is not followed.
\<close>

definition feature_scale :: "json \<Rightarrow> error + real" where
  "feature_scale j =
     (case j of
        JInt s \<Rightarrow> if - (2 ^ 63) \<le> s \<and> s < 2 ^ 63 then Inr (real_of_int s) else Inl OutsideModel
      | JFloat s \<Rightarrow> Inr s
      | JBool c \<Rightarrow> Inr (if c then 1 else 0)
      | JList xs \<Rightarrow> Inl OutsideModel
      | _ \<Rightarrow> Inl FeatureError)"

text \<open>
  \<^verbatim>\<open>sae.W_dec[ft_id]\<close>: a row of the decoder, or a tensor of two or three dimensions, of
  which only the shape is kept.
\<close>

datatype pick = Row tensor | Shaped "nat list"

fun py_indices :: "int list \<Rightarrow> nat \<Rightarrow> error + nat list" where
  "py_indices [] n = Inr []"
| "py_indices (i # ids) n =
     and_then (py_index i n) (\<lambda>k.
     and_then (py_indices ids n) (\<lambda>ks.
     Inr (k # ks)))"

definition pick_rows :: "mat \<Rightarrow> ft_index \<Rightarrow> error + pick" where
  "pick_rows D ft_id =
     (case ft_id of
        Position i \<Rightarrow> and_then (py_get D i) (\<lambda>row. Inr (Row (Vec row)))
      | Several ids \<Rightarrow> and_then (py_indices ids (length D)) (\<lambda>ks. Inr (Shaped [length ks, ncols D]))
      | Everywhere \<Rightarrow> Inr (Shaped [1, length D, ncols D])
      | Nowhere \<Rightarrow> Inr (Shaped [0, length D, ncols D]))"

definition scale_pick :: "pick \<Rightarrow> real \<Rightarrow> pick" where
  "scale_pick p c = (case p of Row t \<Rightarrow> Row (tscale t c) | Shaped s \<Rightarrow> Shaped s)"

text \<open>
  The loop of \<open>load_sae_steer\<close>: \<^verbatim>\<open>vectors.append(sae.W_dec[ft_id] * ft_scale)\<close> for each
  feature in turn; the index is applied before the factor is looked at.
\<close>

fun feature_rows :: "mat \<Rightarrow> json list \<Rightarrow> error + pick list" where
  "feature_rows D [] = Inr []"
| "feature_rows D (j # js) =
     and_then (feature_entry j) (\<lambda>(ft_id, ft_scale).
     and_then (feature_id ft_id) (\<lambda>ft_id.
     and_then (pick_rows D ft_id) (\<lambda>rows.
     and_then (feature_scale ft_scale) (\<lambda>ft_scale.
     and_then (feature_rows D js) (\<lambda>rest.
     Inr (scale_pick rows ft_scale # rest))))))"

text \<open>
  \<^verbatim>\<open>torch.stack(vectors, dim=0).sum(dim=0)\<close>: an empty list cannot be stacked, nor can
  tensors of different shapes. The sum of rows is a vector; it is determined when every
  row is.
\<close>

definition row_vec :: "pick \<Rightarrow> vec option" where
  "row_vec p = (case p of Row (Vec v) \<Rightarrow> Some v | _ \<Rightarrow> None)"

definition stack_sum :: "pick list \<Rightarrow> error + tensor" where
  "stack_sum vectors =
     (case vectors of
        [] \<Rightarrow> Inl EmptyStack
      | Row t # _ \<Rightarrow>
          if list_all (\<lambda>p. case p of Row u \<Rightarrow> numel u = numel t | Shaped s \<Rightarrow> False) vectors
          then Inr (if list_all (\<lambda>p. row_vec p \<noteq> None) vectors
                    then Vec (map (\<lambda>j. sum_list (map (\<lambda>p. the (row_vec p) ! j) vectors)) [0..<numel t])
                    else undetermined (numel t))
          else Inl ShapeError
      | Shaped s # _ \<Rightarrow>
          if list_all (\<lambda>p. p = Shaped s) vectors then Inr (Undetermined (prod_list s))
          else Inl ShapeError)"

text \<open>
  \<^verbatim>\<open>target[ft_id] = ft_scale\<close>. An integer sets one position, a list of integers each of
  its positions, \<^verbatim>\<open>True\<close> and \<^verbatim>\<open>None\<close> set every position, \<^verbatim>\<open>False\<close> sets none.
\<close>

definition assign :: "vec \<Rightarrow> ft_index \<Rightarrow> real \<Rightarrow> error + vec" where
  "assign target ft_id ft_scale =
     (case ft_id of
        Position i \<Rightarrow> py_set target i ft_scale
      | Several ids \<Rightarrow>
          and_then (py_indices ids (length target)) (\<lambda>ks.
          Inr (fold (\<lambda>k t. t[k := ft_scale]) ks target))
      | Everywhere \<Rightarrow> Inr (map (\<lambda>x. ft_scale) target)
      | Nowhere \<Rightarrow> Inr target)"

text \<open>
  One element of the feature list as \<^verbatim>\<open>target[ft_id] = ft_scale\<close> reads it: torch
  converts the value before it looks at the index.
\<close>

definition feature_pair :: "json \<Rightarrow> error + (ft_index \<times> real)" where
  "feature_pair j =
     and_then (feature_entry j) (\<lambda>(ft_id, ft_scale).
     and_then (feature_scale ft_scale) (\<lambda>ft_scale.
     and_then (feature_id ft_id) (\<lambda>ft_id.
     Inr (ft_id, ft_scale))))"

text \<open>
  The loop of \<open>load_optimised_steer\<close> and of \<open>load_pinv_steer\<close>:
  \<^verbatim>\<open>target[ft_id] = ft_scale\<close> for each feature in turn.
\<close>

fun set_features :: "vec \<Rightarrow> json list \<Rightarrow> error + vec" where
  "set_features target [] = Inr target"
| "set_features target (j # js) =
     and_then (feature_pair j) (\<lambda>(ft_id, ft_scale).
     and_then (assign target ft_id ft_scale) (\<lambda>target'.
     set_features target' js))"

subsection \<open>The loaders\<close>

definition load_sae_steer :: "env \<Rightarrow> string \<Rightarrow> (tensor \<times> json \<times> json) io" where
  "load_sae_steer ev path =
     io_bind (read_json (path_join path ''feature_steer.json'')) (\<lambda>config.
     io_pure (
       and_then (load_sae_model ev config) (\<lambda>s.
       and_then (json_key config ''features'') (\<lambda>fs.
       and_then (feature_list fs) (\<lambda>fs.
       and_then (feature_rows (W_dec s) fs) (\<lambda>vectors.
       and_then (stack_sum vectors) (\<lambda>v.
       let v = normalise v in
       and_then (json_key config ''hp'') (\<lambda>hp.
       and_then (json_key config ''layer'') (\<lambda>layer.
       Inr (v, hp, layer))))))))))"

text \<open>
  The part that \<open>load_optimised_steer\<close> and \<open>load_pinv_steer\<close> have word for word in
  common: configuration, autoencoder, adapter and the feature-space target. The
  autoencoder only gives \<^verbatim>\<open>LinearAdapter\<close> its dimensions; the stored adapter is taken to
  have them.
\<close>

definition load_adapter_target :: "env \<Rightarrow> string \<Rightarrow> bool \<Rightarrow> (json \<times> json \<times> adapter \<times> vec) io" where
  "load_adapter_target ev path big_model =
     io_bind (read_json (path_join path ''optimised_steer.json'')) (\<lambda>config.
     io_bind (io_pure (json_key config ''layer'')) (\<lambda>layer.
     io_bind (io_pure (load_sae_model ev config)) (\<lambda>s.
     io_bind (load_adapter big_model layer) (\<lambda>adapter.
     io_pure (
       and_then (json_key config ''features'') (\<lambda>fs.
       and_then (feature_list fs) (\<lambda>fs.
       and_then (set_features (replicate (ncols (W adapter)) 0) fs) (\<lambda>target.
       Inr (config, layer, adapter, target)))))))))"

definition load_optimised_steer :: "env \<Rightarrow> string \<Rightarrow> bool \<Rightarrow> (tensor \<times> json \<times> json) io" where
  "load_optimised_steer ev path big_model =
     io_bind (load_adapter_target ev path big_model) (\<lambda>(config, layer, adapter, target).
     io_pure (
       and_then (single_step_steer adapter target 1) (\<lambda>v.
       and_then (json_key config ''hp'') (\<lambda>hp.
       Inr (v, hp, layer)))))"

definition load_pinv_steer :: "env \<Rightarrow> string \<Rightarrow> bool \<Rightarrow> (tensor \<times> json \<times> json) io" where
  "load_pinv_steer ev path big_model =
     io_bind (load_adapter_target ev path big_model) (\<lambda>(config, layer, adapter, target).
     io_pure (
       and_then (pinverse_steer (linalg_pinv ev) adapter target 1) (\<lambda>v.
       and_then (json_key config ''hp'') (\<lambda>hp.
       Inr (v, hp, layer)))))"

subsection \<open>analyse\_steer\<close>

text \<open>The comprehension \<^verbatim>\<open>[(item - 1) / 9 for item in score]\<close>, on one item.\<close>

definition rescale :: "real \<Rightarrow> real" where
  "rescale item = (item - 1) / 9"

text \<open>\<^verbatim>\<open>sum(xs) / len(xs)\<close>\<close>

definition mean :: "real list \<Rightarrow> error + real" where
  "mean xs = (if xs = [] then Inl ZeroDivisionError else Inr (sum_list xs / real (length xs)))"

text \<open>\<^verbatim>\<open>max(xs)\<close>: the running maximum is replaced only by a strictly greater item.\<close>

fun max_from :: "real \<Rightarrow> real list \<Rightarrow> real" where
  "max_from m [] = m"
| "max_from m (x # xs) = max_from (if m < x then x else m) xs"

definition py_max :: "real list \<Rightarrow> error + real" where
  "py_max xs = (case xs of [] \<Rightarrow> Inl EmptyMax | x # rest \<Rightarrow> Inr (max_from x rest))"

text \<open>\<^verbatim>\<open>xs.index(v)\<close>: the first position holding \<open>v\<close>.\<close>

fun list_index :: "real list \<Rightarrow> real \<Rightarrow> error + nat" where
  "list_index [] v = Inl NotInList"
| "list_index (x # xs) v =
     (if x = v then Inr 0 else and_then (list_index xs v) (\<lambda>i. Inr (Suc i)))"

text \<open>
  Lines 226 to 231 of \<open>analyse_steer\<close>: the per-scale product, its maximum, the first
  index of the maximum and the scale there.
\<close>

definition best_scale :: "int list \<Rightarrow> real list \<Rightarrow> real list \<Rightarrow> error + (real list \<times> real \<times> int)" where
  "best_scale scs avg_coh avg_sc =
     (let prd = map (\<lambda>(c, s). c * s) (zip avg_coh avg_sc)
      in and_then (py_max prd) (\<lambda>max_prd.
         and_then (list_index prd max_prd) (\<lambda>max_index.
         and_then (py_get scs (int max_index)) (\<lambda>max_scale.
         Inr (prd, max_prd, max_scale)))))"

text \<open>The lists that the loop over the scales appends to.\<close>

record sweep_lists =
  all_texts :: "(int \<times> string list) list"
  avg_score_acc :: "real list"
  avg_coh_acc :: "real list"
  scores_acc :: "real list list"
  coherences_acc :: "real list list"
  products_acc :: "real list list"

definition no_lists :: sweep_lists where
  "no_lists = \<lparr>all_texts = [], avg_score_acc = [], avg_coh_acc = [], scores_acc = [],
     coherences_acc = [], products_acc = []\<rparr>"

text \<open>
  The body of \<^verbatim>\<open>for scale in tqdm(scales)\<close>, first what it computes for the scale: the
  texts, the rescaled scores and coherences, their per-sample products and the two means.
\<close>

record scale_values =
  texts :: "string list"
  sample_scores :: "real list"
  sample_coherences :: "real list"
  sample_products :: "real list"
  mean_score :: real
  mean_coherence :: real

definition evaluate_scale ::
  "env \<Rightarrow> tensor \<Rightarrow> json \<Rightarrow> json \<Rightarrow> json \<Rightarrow> int \<Rightarrow> error + scale_values" where
  "evaluate_scale ev steer hp prompt criteria scale =
     and_then (lift_lib (steer_model ev steer hp prompt scale 256)) (\<lambda>txts.
     and_then (json_first criteria) (\<lambda>c0.
     and_then (json_key c0 ''score'') (\<lambda>rubric_score.
     and_then (json_key c0 ''coherence'') (\<lambda>rubric_coherence.
     and_then (lift_lib (multi_criterion_evaluation ev txts [rubric_score, rubric_coherence] prompt))
       (\<lambda>(score_items, coherence_items).
     let sc = map (\<lambda>item. rescale (score item)) score_items;
         coh = map (\<lambda>item. rescale (score item)) coherence_items;
         prods = map (\<lambda>(s, c). s * c) (zip sc coh)
     in and_then (mean sc) (\<lambda>ms.
        and_then (mean coh) (\<lambda>mc.
        Inr \<lparr>texts = txts, sample_scores = sc, sample_coherences = coh,
             sample_products = prods, mean_score = ms, mean_coherence = mc\<rparr>)))))))"

text \<open>Then the six \<^verbatim>\<open>append\<close>s. An exception in the body leaves no list behind.\<close>

definition append_values :: "sweep_lists \<Rightarrow> int \<Rightarrow> scale_values \<Rightarrow> sweep_lists" where
  "append_values acc scale v =
     \<lparr>all_texts = all_texts acc @ [(scale, texts v)],
      avg_score_acc = avg_score_acc acc @ [mean_score v],
      avg_coh_acc = avg_coh_acc acc @ [mean_coherence v],
      scores_acc = scores_acc acc @ [sample_scores v],
      coherences_acc = coherences_acc acc @ [sample_coherences v],
      products_acc = products_acc acc @ [sample_products v]\<rparr>"

definition sweep_step ::
  "env \<Rightarrow> tensor \<Rightarrow> json \<Rightarrow> json \<Rightarrow> json \<Rightarrow> sweep_lists \<Rightarrow> int \<Rightarrow> error + sweep_lists" where
  "sweep_step ev steer hp prompt criteria acc scale =
     and_then (evaluate_scale ev steer hp prompt criteria scale) (\<lambda>v.
     Inr (append_values acc scale v))"

fun sweep ::
  "env \<Rightarrow> tensor \<Rightarrow> json \<Rightarrow> json \<Rightarrow> json \<Rightarrow> sweep_lists \<Rightarrow> int list \<Rightarrow> error + sweep_lists" where
  "sweep ev steer hp prompt criteria acc [] = Inr acc"
| "sweep ev steer hp prompt criteria acc (scale # rest) =
     and_then (sweep_step ev steer hp prompt criteria acc scale) (\<lambda>acc'.
     sweep ev steer hp prompt criteria acc' rest)"

text \<open>
  Lines 183 to 187. \<open>default_prompt\<close> is the module's global: \<open>None\<close> is Python's
  \<^verbatim>\<open>None\<close>.
\<close>

definition select_prompt :: "string option \<Rightarrow> string \<Rightarrow> json io" where
  "select_prompt default_prompt path =
     (case default_prompt of
        Some p \<Rightarrow> io_pure (Inr (JStr p))
      | None \<Rightarrow>
          io_bind (read_json (path_join path ''prompts.json'')) (\<lambda>j. io_pure (json_first j)))"

definition safe_name :: "string \<Rightarrow> string" where
  "safe_name name = map (\<lambda>c. if c = CHR '' '' then CHR ''_'' else c) name"

text \<open>
  \<open>plot\<close>: the figure with its title and traces, written as an image. Only a string has
  \<^verbatim>\<open>replace\<close>.
\<close>

definition plot ::
  "string \<Rightarrow> real list \<Rightarrow> real list \<Rightarrow> real list \<Rightarrow> int list \<Rightarrow> string \<Rightarrow> json \<Rightarrow> unit io" where
  "plot path coherence sc prd scs method steering_goal_name =
     (case steering_goal_name of
        JStr name \<Rightarrow>
          write_file (path_join path (''scores_'' @ safe_name name @ ''_'' @ method @ ''.png''))
            (FigureOut (''Steering Analysis for '' @ name @ '' ('' @ method @ '')'')
               scs coherence sc prd)
      | _ \<Rightarrow> io_pure (Inl AttributeError))"

definition analyse_steer ::
  "env \<Rightarrow> string option \<Rightarrow> tensor \<Rightarrow> json \<Rightarrow> string \<Rightarrow> string \<Rightarrow> (result \<times> graph_data) io" where
  "analyse_steer ev default_prompt steer hp path method =
     io_bind (io_pure (py_range 0 320 20)) (\<lambda>scs.
     io_bind (read_json (path_join path ''criteria.json'')) (\<lambda>criteria.
     io_bind (select_prompt default_prompt path) (\<lambda>prompt.
     io_bind (io_pure (and_then (json_first criteria) (\<lambda>c0. json_get c0 ''name'' (JStr ''Unknown''))))
       (\<lambda>steering_goal_name.
     io_bind (io_pure (sweep ev steer hp prompt criteria no_lists scs)) (\<lambda>acc.
     io_bind (io_pure (best_scale scs (avg_coh_acc acc) (avg_score_acc acc)))
       (\<lambda>(prd, max_prd, max_scale).
     io_bind (write_file (path_join path (''generated_texts_'' @ method @ ''.json''))
                (TextsOut (all_texts acc))) (\<lambda>_.
     io_bind (plot path (avg_coh_acc acc) (avg_score_acc acc) prd scs method steering_goal_name) (\<lambda>_.
     io_pure (Inr
       (\<lparr>result_path = path, result_method = method, result_goal_name = steering_goal_name,
          max_product = max_prd, scale_at_max = max_scale\<rparr>,
        \<lparr>graph_path = path, graph_method = method, graph_goal_name = steering_goal_name,
          scales = scs, avg_coherence = avg_coh_acc acc, avg_score = avg_score_acc acc,
          product = prd, individual_scores = scores_acc acc,
          individual_coherences = coherences_acc acc,
          individual_products = products_acc acc\<rparr>))))))))))"

subsection \<open>The script\<close>

fun str_nat :: "nat \<Rightarrow> string" where
  "str_nat n =
     (if n < 10 then [''0123456789'' ! n]
      else str_nat (n div 10) @ [''0123456789'' ! (n mod 10)])"

definition str_int :: "int \<Rightarrow> string" where
  "str_int i = (if i < 0 then ''-'' @ str_nat (nat (- i)) else str_nat (nat i))"

text \<open>
  Lines 324 to 327: the activation-difference vector, normalised, and its hook point
  \<^verbatim>\<open>f"blocks.{layer}.hook_resid_post"\<close>.
\<close>

definition load_activation_steer :: "env \<Rightarrow> string \<Rightarrow> error + (tensor \<times> json \<times> json)" where
  "load_activation_steer ev path =
     and_then (lift_lib (act_steer ev path)) (\<lambda>(steer, layer).
     let steer = normalise (Vec steer) in
     Inr (steer, JStr (''blocks.'' @ str_int layer @ ''.hook_resid_post''), JInt layer))"

text \<open>
  The body of \<^verbatim>\<open>for path in paths\<close> is the same four lines four times: load the vector of
  a method, \<open>analyse_steer\<close> it under the method's tag, append the result and the graph
  data. \<open>methods\<close> lists the four loaders with their tags in the order of the source,
  \<open>method_round\<close> is the four lines, \<open>run_methods\<close> runs them in turn.
\<close>

definition methods :: "env \<Rightarrow> string \<Rightarrow> bool \<Rightarrow> ((tensor \<times> json \<times> json) io \<times> string) list" where
  "methods ev path big_model =
     [(io_pure (load_activation_steer ev path), ''ActSteer''),
      (load_sae_steer ev path, ''SAE''),
      (load_optimised_steer ev path big_model, ''OptimisedSteer''),
      (load_pinv_steer ev path big_model, ''PinverseSteer'')]"

definition method_round ::
  "env \<Rightarrow> string option \<Rightarrow> string \<Rightarrow> result list \<times> graph_data list \<Rightarrow>
   (tensor \<times> json \<times> json) io \<times> string \<Rightarrow> (result list \<times> graph_data list) io" where
  "method_round ev default_prompt path acc m =
     io_bind (fst m) (\<lambda>(steer, hp, layer).
     io_bind (analyse_steer ev default_prompt steer hp path (snd m)) (\<lambda>(r, g).
     io_pure (Inr (fst acc @ [r], snd acc @ [g]))))"

fun run_methods ::
  "env \<Rightarrow> string option \<Rightarrow> string \<Rightarrow> ((tensor \<times> json \<times> json) io \<times> string) list \<Rightarrow>
   result list \<times> graph_data list \<Rightarrow> (result list \<times> graph_data list) io" where
  "run_methods ev default_prompt path [] acc = io_pure (Inr acc)"
| "run_methods ev default_prompt path (m # ms) acc =
     io_bind (method_round ev default_prompt path acc m) (\<lambda>acc'.
     run_methods ev default_prompt path ms acc')"

definition run_path ::
  "env \<Rightarrow> string option \<Rightarrow> bool \<Rightarrow> string \<Rightarrow> result list \<times> graph_data list \<Rightarrow>
   (result list \<times> graph_data list) io" where
  "run_path ev default_prompt big_model path acc =
     run_methods ev default_prompt path (methods ev path big_model) acc"

fun sweep_paths ::
  "env \<Rightarrow> string option \<Rightarrow> bool \<Rightarrow> string list \<Rightarrow> result list \<times> graph_data list \<Rightarrow>
   (result list \<times> graph_data list) io" where
  "sweep_paths ev default_prompt big_model [] acc = io_pure (Inr acc)"
| "sweep_paths ev default_prompt big_model (path # rest) acc =
     io_bind (run_path ev default_prompt big_model path acc) (\<lambda>acc'.
     sweep_paths ev default_prompt big_model rest acc')"

text \<open>The \<^verbatim>\<open>__main__\<close> block: the loop, then the two run-wide files.\<close>

definition main ::
  "env \<Rightarrow> string option \<Rightarrow> bool \<Rightarrow> string \<Rightarrow> string list \<Rightarrow> unit io" where
  "main ev default_prompt big_model model_name paths =
     io_bind (sweep_paths ev default_prompt big_model paths ([], [])) (\<lambda>(results, graphs).
     io_bind (write_file (''steering_results_'' @ model_name @ ''.json'') (ResultsOut results)) (\<lambda>_.
     write_file (''graph_data_all_methods_'' @ model_name @ ''.json'') (GraphsOut graphs)))"

subsection \<open>The pseudo-inverse derivation in the words of the specification\<close>

text \<open>
  The feature-space target: zeros, with the configured scale at each configured feature
  id. An id addresses a position as indexing does: a negative id counts from the end, a
  list of ids addresses each of its positions, \<^verbatim>\<open>True\<close> and \<^verbatim>\<open>None\<close> address every
  position and \<^verbatim>\<open>False\<close> none. Of several features on one position the one configured
  last counts.
\<close>

definition addresses :: "nat \<Rightarrow> ft_index \<Rightarrow> nat \<Rightarrow> bool" where
  "addresses n ft_id i \<longleftrightarrow>
     (case ft_id of
        Position k \<Rightarrow> (if k < 0 then int n + k else k) = int i
      | Several ks \<Rightarrow> list_ex (\<lambda>k. (if k < 0 then int n + k else k) = int i) ks
      | Everywhere \<Rightarrow> True
      | Nowhere \<Rightarrow> False)"

definition spec_target :: "nat \<Rightarrow> (ft_index \<times> real) list \<Rightarrow> vec" where
  "spec_target n features =
     map (\<lambda>i. case filter (\<lambda>(ft_id, ft_scale). addresses n ft_id i) (rev features) of
                 [] \<Rightarrow> 0
               | (ft_id, ft_scale) # _ \<Rightarrow> ft_scale) [0..<n]"

text \<open>The solution \<open>(target - bias) \<cdot> pinv(W)\<close> of the linear system, \<open>P\<close> being \<open>pinv(W)\<close>.\<close>

definition spec_pinv_solution :: "vec \<Rightarrow> vec \<Rightarrow> mat \<Rightarrow> error + vec" where
  "spec_pinv_solution target bias P = and_then (vsub target bias) (\<lambda>d. vecmat d P)"

subsection \<open>A concrete run\<close>

text \<open>
  A small world on which the definitions can be evaluated: two configurations \<^verbatim>\<open>cfg\<close> and
  \<^verbatim>\<open>cfg2\<close> with the same files, an adapter with the identity as weight matrix, the
  pseudo-inverse tabulated for the two weight matrices that occur (the identity, which
  is its own, and the 1 by 1 matrix 2), a sampler that returns the requested number of
  texts, good ones at the scales 100 and 200, and an evaluator that rates the first text
  of a batch.
\<close>

definition demo_env :: env where
  "demo_env = \<lparr>from_pretrained = (\<lambda>release sae_id. Inr \<lparr>W_enc = [[1, 0]], W_dec = [[0, 1], [1, 0]]\<rparr>),
     normalise_decoder = (\<lambda>s. s),
     gemmascope = (\<lambda>repo_id filename. Inl ''offline''),
     linalg_pinv = (\<lambda>M. if M = [[2]] then [[1 / 2]] else [[1, 0], [0, 1]]),
     act_steer = (\<lambda>path. Inr ([0, 1], 7)),
     steer_model = (\<lambda>steer hp prompt scale n.
        Inr (replicate n (if scale = 100 \<or> scale = 200 then ''good'' else ''poor''))),
     multi_criterion_evaluation = (\<lambda>txts rubrics prompt.
        if hd txts = ''good'' then Inr ([\<lparr>score = 10\<rparr>, \<lparr>score = 10\<rparr>], [\<lparr>score = 10\<rparr>, \<lparr>score = 10\<rparr>])
        else Inr ([\<lparr>score = 4\<rparr>, \<lparr>score = 7\<rparr>], [\<lparr>score = 1\<rparr>, \<lparr>score = 10\<rparr>]))\<rparr>"

definition demo_criteria :: json where
  "demo_criteria =
     JList [JObj [(''name'', JStr ''anger''), (''score'', JStr ''s''), (''coherence'', JStr ''c'')]]"

definition demo_config :: json where
  "demo_config =
     JObj [(''sae'', JStr ''gemma-scope''), (''layer'', JInt 12),
           (''features'', JList [JList [JInt 0, JInt 2]]), (''hp'', JStr ''blocks.12.hook_resid_post'')]"

definition demo_world :: world where
  "demo_world = \<lparr>files =
       [''cfg/criteria.json'' \<mapsto> JsonFile demo_criteria,
        ''cfg/feature_steer.json'' \<mapsto> JsonFile demo_config,
        ''cfg/optimised_steer.json'' \<mapsto> JsonFile demo_config,
        ''cfg2/criteria.json'' \<mapsto> JsonFile demo_criteria,
        ''cfg2/feature_steer.json'' \<mapsto> JsonFile demo_config,
        ''cfg2/optimised_steer.json'' \<mapsto> JsonFile demo_config],
     weights = (\<lambda>big layer. if layer = JInt 12 then Some \<lparr>W = [[1, 0], [0, 1]], b = [- 1, 0]\<rparr> else None),
     writable = (\<lambda>p. True),
     opened = [],
     written = []\<rparr>"

text \<open>The same with a sampler that returns one text whatever the count asked for.\<close>

definition quick_env :: env where
  "quick_env = demo_env\<lparr>steer_model := (\<lambda>steer hp prompt scale n. Inr [''sample''])\<rparr>"

text \<open>The same world, where the texts of \<^verbatim>\<open>cfg\<close> under \<^verbatim>\<open>ActSteer\<close> cannot be written.\<close>

definition locked_world :: world where
  "locked_world = demo_world\<lparr>writable := (\<lambda>p. p \<noteq> ''cfg/generated_texts_ActSteer.json'')\<rparr>"

definition demo_result :: result where
  "demo_result = \<lparr>result_path = ''cfg'', result_method = ''SAE'',
     result_goal_name = JStr ''anger'', max_product = 1, scale_at_max = 100\<rparr>"

definition demo_graph :: graph_data where
  "demo_graph = \<lparr>graph_path = ''cfg'', graph_method = ''SAE'', graph_goal_name = JStr ''anger'',
     scales = [0, 20, 40, 60, 80, 100, 120, 140, 160, 180, 200, 220, 240, 260, 280, 300],
     avg_coherence = [1 / 2, 1 / 2, 1 / 2, 1 / 2, 1 / 2, 1, 1 / 2, 1 / 2, 1 / 2, 1 / 2, 1, 1 / 2, 1 / 2, 1 / 2, 1 / 2, 1 / 2],
     avg_score = [1 / 2, 1 / 2, 1 / 2, 1 / 2, 1 / 2, 1, 1 / 2, 1 / 2, 1 / 2, 1 / 2, 1, 1 / 2, 1 / 2, 1 / 2, 1 / 2, 1 / 2],
     product = [1 / 4, 1 / 4, 1 / 4, 1 / 4, 1 / 4, 1, 1 / 4, 1 / 4, 1 / 4, 1 / 4, 1, 1 / 4, 1 / 4, 1 / 4, 1 / 4, 1 / 4],
     individual_scores = [[1 / 3, 2 / 3], [1 / 3, 2 / 3], [1 / 3, 2 / 3], [1 / 3, 2 / 3], [1 / 3, 2 / 3], [1, 1],
        [1 / 3, 2 / 3], [1 / 3, 2 / 3], [1 / 3, 2 / 3], [1 / 3, 2 / 3], [1, 1], [1 / 3, 2 / 3], [1 / 3, 2 / 3],
        [1 / 3, 2 / 3], [1 / 3, 2 / 3], [1 / 3, 2 / 3]],
     individual_coherences = [[0, 1], [0, 1], [0, 1], [0, 1], [0, 1], [1, 1], [0, 1], [0, 1], [0, 1], [0, 1],
        [1, 1], [0, 1], [0, 1], [0, 1], [0, 1], [0, 1]],
     individual_products = [[0, 2 / 3], [0, 2 / 3], [0, 2 / 3], [0, 2 / 3], [0, 2 / 3], [1, 1], [0, 2 / 3],
        [0, 2 / 3], [0, 2 / 3], [0, 2 / 3], [1, 1], [0, 2 / 3], [0, 2 / 3], [0, 2 / 3], [0, 2 / 3], [0, 2 / 3]]\<rparr>"

definition prompts_world :: world where
  "prompts_world = demo_world\<lparr>files :=
     (files demo_world)(''cfg/prompts.json'' \<mapsto> JsonFile (JList [JStr ''Once upon a time'', JStr ''unused'']))\<rparr>"

section \<open>Properties\<close>

subsection \<open>Facts about tensors\<close>

lemma and_then_Inr [simp]: "and_then (Inr x) f = f x"
  by (simp add: and_then_def)

lemma and_then_Inl [simp]: "and_then (Inl e) f = Inl e"
  by (simp add: and_then_def)

lemma and_then_eq_Inr:
  "and_then m f = Inr y \<longleftrightarrow> (\<exists>x. m = Inr x \<and> f x = Inr y)"
  by (cases m) simp_all





subsection \<open>Facts about the sweep\<close>

lemma io_bind_eq_Inr:
  "io_bind m f w = (Inr y, w') \<longleftrightarrow> (\<exists>x w1. m w = (Inr x, w1) \<and> f x w1 = (Inr y, w'))"
  by (auto simp: io_bind_def split: prod.splits sum.splits)

lemma io_pure_eq: "io_pure r w = (r', w') \<longleftrightarrow> r = r' \<and> w = w'"
  by (auto simp: io_pure_def)

lemma max_from_ge: "m \<le> max_from m xs"
  by (induction xs arbitrary: m) (auto intro: order_trans less_imp_le)

lemma max_from_upper: "x \<in> set xs \<Longrightarrow> x \<le> max_from m xs"
proof (induction xs arbitrary: m)
  case Nil
  then show ?case by simp
next
  case (Cons a xs)
  show ?case
  proof (cases "x = a")
    case True
    have "a \<le> (if m < a then a else m)" by simp
    also have "\<dots> \<le> max_from (if m < a then a else m) xs" by (rule max_from_ge)
    finally show ?thesis using True by simp
  next
    case False
    with Cons.prems have "x \<in> set xs" by simp
    then show ?thesis using Cons.IH by simp
  qed
qed

lemma max_from_mem: "max_from m xs \<in> set (m # xs)"
  by (induction xs arbitrary: m) auto

lemma list_index_first:
  "v \<in> set xs \<Longrightarrow>
   \<exists>i. list_index xs v = Inr i \<and> i < length xs \<and> xs ! i = v \<and> (\<forall>j<i. xs ! j \<noteq> v)"
proof (induction xs)
  case Nil
  then show ?case by simp
next
  case (Cons a xs)
  show ?case
  proof (cases "a = v")
    case True
    then show ?thesis by simp
  next
    case False
    with Cons.prems have "v \<in> set xs" by simp
    from Cons.IH [OF this] obtain i where i: "list_index xs v = Inr i" "i < length xs" "xs ! i = v"
      "\<forall>j<i. xs ! j \<noteq> v" by blast
    have "\<forall>j<Suc i. (a # xs) ! j \<noteq> v"
      using False i(4) by (auto simp: nth_Cons split: nat.splits)
    with i False show ?thesis by simp
  qed
qed

lemma best_scale_argmax:
  assumes "length avg_coh = length scs" and "length avg_sc = length scs" and "scs \<noteq> []"
  shows "\<exists>i<length scs.
           best_scale scs avg_coh avg_sc =
             Inr (map (\<lambda>(c, s). c * s) (zip avg_coh avg_sc), avg_coh ! i * avg_sc ! i, scs ! i) \<and>
           (\<forall>j<length scs. avg_coh ! j * avg_sc ! j \<le> avg_coh ! i * avg_sc ! i) \<and>
           (\<forall>j<i. avg_coh ! j * avg_sc ! j < avg_coh ! i * avg_sc ! i)"
proof -
  define prd where "prd = map (\<lambda>(c, s). c * s) (zip avg_coh avg_sc)"
  have len: "length prd = length scs" using assms by (simp add: prd_def)
  have nth: "prd ! j = avg_coh ! j * avg_sc ! j" if "j < length scs" for j
    using that assms by (simp add: prd_def)
  from len assms(3) obtain x rest where xr: "prd = x # rest" by (cases prd) auto
  define mx where "mx = max_from x rest"
  have pm: "py_max prd = Inr mx" by (simp add: py_max_def xr mx_def)
  have mem: "mx \<in> set prd" unfolding mx_def xr by (rule max_from_mem)
  have upper: "y \<le> mx" if "y \<in> set prd" for y
    using that max_from_ge [of x rest] max_from_upper [of y rest x] by (auto simp: xr mx_def)
  from list_index_first [OF mem] obtain i where i: "list_index prd mx = Inr i" "i < length prd"
    "prd ! i = mx" "\<forall>j<i. prd ! j \<noteq> mx" by blast
  have get: "py_get scs (int i) = Inr (scs ! i)"
    using i(2) len by (simp add: py_get_def py_index_def)
  have il: "i < length scs" using i(2) len by simp
  have bs: "best_scale scs avg_coh avg_sc = Inr (prd, mx, scs ! i)"
    by (simp add: best_scale_def prd_def [symmetric] pm i(1) get)
  have mxi: "mx = avg_coh ! i * avg_sc ! i" using i(2,3) len nth by simp
  have up: "\<forall>j<length scs. avg_coh ! j * avg_sc ! j \<le> mx"
    using upper len nth by (metis nth_mem)
  have strict: "\<forall>j<i. avg_coh ! j * avg_sc ! j < mx"
  proof (intro allI impI)
    fix j assume "j < i"
    then have "j < length scs" using i(2) len by simp
    then have "prd ! j \<le> mx" "prd ! j \<noteq> mx" using upper len \<open>j < i\<close> i(4) by (auto simp: nth_mem)
    then show "avg_coh ! j * avg_sc ! j < mx" using nth [OF \<open>j < length scs\<close>] by simp
  qed
  show ?thesis
    using il bs up strict unfolding mxi prd_def by blast
qed


lemma lift_lib_eq_Inr: "lift_lib m = Inr x \<longleftrightarrow> m = Inr x"
  by (cases m) (simp_all add: lift_lib_def)

lemma mean_eq_Inr: "mean xs = Inr m \<longleftrightarrow> xs \<noteq> [] \<and> m = sum_list xs / real (length xs)"
  by (auto simp: mean_def)

lemma evaluate_scale_Inr:
  assumes "evaluate_scale ev steer hp prompt criteria scale = Inr v"
  shows "\<exists>c0 rs rc si ci.
           steer_model ev steer hp prompt scale 256 = Inr (texts v) \<and>
           json_first criteria = Inr c0 \<and> json_key c0 ''score'' = Inr rs \<and>
           json_key c0 ''coherence'' = Inr rc \<and>
           multi_criterion_evaluation ev (texts v) [rs, rc] prompt = Inr (si, ci) \<and>
           sample_scores v = map (\<lambda>item. rescale (score item)) si \<and>
           sample_coherences v = map (\<lambda>item. rescale (score item)) ci \<and>
           sample_products v = map (\<lambda>(s, c). s * c) (zip (sample_scores v) (sample_coherences v)) \<and>
           mean (sample_scores v) = Inr (mean_score v) \<and>
           mean (sample_coherences v) = Inr (mean_coherence v)"
  using assms unfolding evaluate_scale_def
  by (auto simp: and_then_eq_Inr lift_lib_eq_Inr Let_def)

lemma sweep_Inr:
  "sweep ev steer hp prompt criteria acc scs = Inr acc' \<Longrightarrow>
   \<exists>vs. map (evaluate_scale ev steer hp prompt criteria) scs = map Inr vs \<and>
     all_texts acc' = all_texts acc @ zip scs (map texts vs) \<and>
     avg_score_acc acc' = avg_score_acc acc @ map mean_score vs \<and>
     avg_coh_acc acc' = avg_coh_acc acc @ map mean_coherence vs \<and>
     scores_acc acc' = scores_acc acc @ map sample_scores vs \<and>
     coherences_acc acc' = coherences_acc acc @ map sample_coherences vs \<and>
     products_acc acc' = products_acc acc @ map sample_products vs"
proof (induction scs arbitrary: acc)
  case Nil
  then show ?case by simp
next
  case (Cons scale rest)
  from Cons.prems obtain v where
    ev: "evaluate_scale ev steer hp prompt criteria scale = Inr v" and
    rest: "sweep ev steer hp prompt criteria (append_values acc scale v) rest = Inr acc'"
    by (auto simp: and_then_eq_Inr sweep_step_def)
  from Cons.IH [OF rest] obtain vs where
    vs: "map (evaluate_scale ev steer hp prompt criteria) rest = map Inr vs" and
    lists: "all_texts acc' = all_texts (append_values acc scale v) @ zip rest (map texts vs)"
      "avg_score_acc acc' = avg_score_acc (append_values acc scale v) @ map mean_score vs"
      "avg_coh_acc acc' = avg_coh_acc (append_values acc scale v) @ map mean_coherence vs"
      "scores_acc acc' = scores_acc (append_values acc scale v) @ map sample_scores vs"
      "coherences_acc acc' = coherences_acc (append_values acc scale v) @ map sample_coherences vs"
      "products_acc acc' = products_acc (append_values acc scale v) @ map sample_products vs"
    by blast
  show ?case
    using ev vs lists by (intro exI [of _ "v # vs"]) (simp add: append_values_def)
qed

lemma scales_value:
  "py_range 0 320 20 = Inr [0, 20, 40, 60, 80, 100, 120, 140, 160, 180, 200, 220, 240, 260, 280, 300]"
  by code_simp

lemma write_file_Inr:
  "write_file p out w = (Inr u, w') \<longleftrightarrow> writable w p \<and> w' = w\<lparr>written := written w @ [(p, out)]\<rparr>"
  by (auto simp: write_file_def)

lemma analyse_steer_Inr:
  assumes "analyse_steer ev dp steer hp path method w = (Inr (r, g), w')"
  shows "\<exists>scs criteria prompt name acc prd w1 w2 w3.
    py_range 0 320 20 = Inr scs \<and>
    read_json (path_join path ''criteria.json'') w = (Inr criteria, w1) \<and>
    select_prompt dp path w1 = (Inr prompt, w2) \<and>
    and_then (json_first criteria) (\<lambda>c0. json_get c0 ''name'' (JStr ''Unknown'')) = Inr name \<and>
    sweep ev steer hp prompt criteria no_lists scs = Inr acc \<and>
    best_scale scs (avg_coh_acc acc) (avg_score_acc acc) = Inr (prd, max_product r, scale_at_max r) \<and>
    write_file (path_join path (''generated_texts_'' @ method @ ''.json''))
      (TextsOut (all_texts acc)) w2 = (Inr (), w3) \<and>
    plot path (avg_coh_acc acc) (avg_score_acc acc) prd scs method name w3 = (Inr (), w') \<and>
    r = \<lparr>result_path = path, result_method = method, result_goal_name = name,
          max_product = max_product r, scale_at_max = scale_at_max r\<rparr> \<and>
    g = \<lparr>graph_path = path, graph_method = method, graph_goal_name = name,
          scales = scs,
          avg_coherence = avg_coh_acc acc, avg_score = avg_score_acc acc,
          product = prd, individual_scores = scores_acc acc,
          individual_coherences = coherences_acc acc,
          individual_products = products_acc acc\<rparr>"
  using assms unfolding analyse_steer_def
  by (auto simp: io_bind_eq_Inr io_pure_eq split: prod.splits)

lemma analyse_steer_graph:
  assumes "analyse_steer ev dp steer hp path method w = (Inr (r, g), w')"
  shows "\<exists>criteria prompt vs w1 w2.
    read_json (path_join path ''criteria.json'') w = (Inr criteria, w1) \<and>
    select_prompt dp path w1 = (Inr prompt, w2) \<and>
    map (evaluate_scale ev steer hp prompt criteria) (scales g) = map Inr vs \<and>
    py_range 0 320 20 = Inr (scales g) \<and>
    avg_score g = map mean_score vs \<and>
    avg_coherence g = map mean_coherence vs \<and>
    individual_scores g = map sample_scores vs \<and>
    individual_coherences g = map sample_coherences vs \<and>
    individual_products g = map sample_products vs \<and>
    best_scale (scales g) (avg_coherence g) (avg_score g) = Inr (product g, max_product r, scale_at_max r) \<and>
    (path_join path (''generated_texts_'' @ method @ ''.json''), TextsOut (zip (scales g) (map texts vs)))
      \<in> set (written w')"
proof -
  from analyse_steer_Inr [OF assms] obtain scs criteria prompt name acc prd w1 w2 w3 where
    scs: "py_range 0 320 20 = Inr scs" and
    rd: "read_json (path_join path ''criteria.json'') w = (Inr criteria, w1)" and
    sp: "select_prompt dp path w1 = (Inr prompt, w2)" and
    sw: "sweep ev steer hp prompt criteria no_lists scs = Inr acc" and
    bs: "best_scale scs (avg_coh_acc acc) (avg_score_acc acc) = Inr (prd, max_product r, scale_at_max r)" and
    wf: "write_file (path_join path (''generated_texts_'' @ method @ ''.json''))
      (TextsOut (all_texts acc)) w2 = (Inr (), w3)" and
    pl: "plot path (avg_coh_acc acc) (avg_score_acc acc) prd scs method name w3 = (Inr (), w')" and
    g: "g = \<lparr>graph_path = path, graph_method = method, graph_goal_name = name,
          scales = scs,
          avg_coherence = avg_coh_acc acc, avg_score = avg_score_acc acc,
          product = prd, individual_scores = scores_acc acc,
          individual_coherences = coherences_acc acc,
          individual_products = products_acc acc\<rparr>"
    by blast
  from sweep_Inr [OF sw] obtain vs where
    vs: "map (evaluate_scale ev steer hp prompt criteria) scs = map Inr vs" and
    lists: "all_texts acc = zip scs (map texts vs)"
      "avg_score_acc acc = map mean_score vs"
      "avg_coh_acc acc = map mean_coherence vs"
      "scores_acc acc = map sample_scores vs"
      "coherences_acc acc = map sample_coherences vs"
      "products_acc acc = map sample_products vs"
    unfolding no_lists_def by auto
  from wf have w3: "w3 = w2\<lparr>written := written w2 @
      [(path_join path (''generated_texts_'' @ method @ ''.json''), TextsOut (all_texts acc))]\<rparr>"
    by (simp add: write_file_Inr)
  from pl obtain q out where "w' = w3\<lparr>written := written w3 @ [(q, out)]\<rparr>"
    by (auto simp: plot_def write_file_Inr io_pure_eq split: json.splits)
  then have wr: "(path_join path (''generated_texts_'' @ method @ ''.json''), TextsOut (all_texts acc))
      \<in> set (written w')"
    by (simp add: w3)
  show ?thesis
    using rd sp vs lists bs wr scs unfolding g
    by (intro exI [of _ criteria] exI [of _ prompt] exI [of _ vs] exI [of _ w1] exI [of _ w2]) simp
qed

lemma scales_length: "py_range 0 320 20 = Inr scs \<Longrightarrow> length scs = 16"
  unfolding scales_value by auto

lemma demo_run_fst:
  "fst (analyse_steer demo_env (Some ''I think'') (Vec [1]) (JStr ''hp'') ''cfg'' ''SAE'' demo_world) =
     Inr (demo_result, demo_graph)"
  by code_simp

lemma demo_run:
  "analyse_steer demo_env (Some ''I think'') (Vec [1]) (JStr ''hp'') ''cfg'' ''SAE'' demo_world =
     (Inr (demo_result, demo_graph),
      snd (analyse_steer demo_env (Some ''I think'') (Vec [1]) (JStr ''hp'') ''cfg'' ''SAE'' demo_world))"
  using demo_run_fst by (metis prod.collapse)

subsection \<open>The reported scale\<close>

text \<open>
  C2. When \<open>analyse_steer\<close> returns, the reported \<open>scale_at_max\<close> is the scale at an index
  \<open>i\<close> where the product of mean score and mean coherence is maximal over all scales,
  every earlier index has a strictly smaller product (of tied scales the first is
  reported), and \<open>max_product\<close> is that maximal product.
\<close>

theorem reported_scale_is_first_maximum:
  assumes "analyse_steer ev dp steer hp path method w = (Inr (r, g), w')"
  shows "\<exists>i<length (scales g).
           scale_at_max r = scales g ! i \<and>
           max_product r = avg_score g ! i * avg_coherence g ! i \<and>
           (\<forall>j<length (scales g). avg_score g ! j * avg_coherence g ! j \<le> max_product r) \<and>
           (\<forall>j<i. avg_score g ! j * avg_coherence g ! j < max_product r)"
proof -
  from analyse_steer_graph [OF assms] obtain criteria prompt vs where
    vs: "map (evaluate_scale ev steer hp prompt criteria) (scales g) = map Inr vs" and
    sc: "py_range 0 320 20 = Inr (scales g)" and
    av: "avg_score g = map mean_score vs" "avg_coherence g = map mean_coherence vs" and
    bs: "best_scale (scales g) (avg_coherence g) (avg_score g) = Inr (product g, max_product r, scale_at_max r)"
    by blast
  have len: "length vs = length (scales g)"
    using vs by (metis length_map)
  have ne: "scales g \<noteq> []" using scales_length [OF sc] by auto
  from best_scale_argmax [of "avg_coherence g" "scales g" "avg_score g"] len ne av
  obtain i where i: "i < length (scales g)"
    "best_scale (scales g) (avg_coherence g) (avg_score g) =
       Inr (map (\<lambda>(c, s). c * s) (zip (avg_coherence g) (avg_score g)),
            avg_coherence g ! i * avg_score g ! i, scales g ! i)"
    "\<forall>j<length (scales g). avg_coherence g ! j * avg_score g ! j \<le> avg_coherence g ! i * avg_score g ! i"
    "\<forall>j<i. avg_coherence g ! j * avg_score g ! j < avg_coherence g ! i * avg_score g ! i"
    by auto
  from i(2) bs have "max_product r = avg_coherence g ! i * avg_score g ! i" "scale_at_max r = scales g ! i"
    by simp_all
  with i(1,3,4) show ?thesis
    by (intro exI [of _ i]) (simp add: mult.commute)
qed

theorem reported_scale_is_first_maximum_witness:
  "analyse_steer demo_env (Some ''I think'') (Vec [1]) (JStr ''hp'') ''cfg'' ''SAE'' demo_world =
     (Inr (demo_result, demo_graph),
      snd (analyse_steer demo_env (Some ''I think'') (Vec [1]) (JStr ''hp'') ''cfg'' ''SAE'' demo_world)) \<and>
   (\<exists>i<length (scales demo_graph).
           scale_at_max demo_result = scales demo_graph ! i \<and>
           max_product demo_result = avg_score demo_graph ! i * avg_coherence demo_graph ! i \<and>
           (\<forall>j<length (scales demo_graph). avg_score demo_graph ! j * avg_coherence demo_graph ! j \<le> max_product demo_result) \<and>
           (\<forall>j<i. avg_score demo_graph ! j * avg_coherence demo_graph ! j < max_product demo_result))"
  using reported_scale_is_first_maximum [OF demo_run] demo_run by blast

subsection \<open>The graph data\<close>

text \<open>
  C9. In the graph data returned by \<open>analyse_steer\<close> the seven lists \<open>scales\<close>,
  \<open>avg_coherence\<close>, \<open>avg_score\<close>, \<open>product\<close>, \<open>individual_scores\<close>,
  \<open>individual_coherences\<close> and \<open>individual_products\<close> all have 16 entries, one for each
  scale, and at every index the product is mean coherence times mean score.
\<close>

theorem graph_lists_parallel:
  assumes "analyse_steer ev dp steer hp path method w = (Inr (r, g), w')"
  shows "length (scales g) = 16 \<and> length (avg_coherence g) = 16 \<and> length (avg_score g) = 16 \<and>
         length (product g) = 16 \<and> length (individual_scores g) = 16 \<and>
         length (individual_coherences g) = 16 \<and> length (individual_products g) = 16 \<and>
         (\<forall>i<16. product g ! i = avg_coherence g ! i * avg_score g ! i)"
proof -
  from analyse_steer_graph [OF assms] obtain criteria prompt vs where
    vs: "map (evaluate_scale ev steer hp prompt criteria) (scales g) = map Inr vs" and
    sc: "py_range 0 320 20 = Inr (scales g)" and
    av: "avg_score g = map mean_score vs" "avg_coherence g = map mean_coherence vs"
      "individual_scores g = map sample_scores vs"
      "individual_coherences g = map sample_coherences vs"
      "individual_products g = map sample_products vs" and
    bs: "best_scale (scales g) (avg_coherence g) (avg_score g) = Inr (product g, max_product r, scale_at_max r)"
    by blast
  have len: "length vs = 16"
    using vs scales_length [OF sc] by (metis length_map)
  from bs have prd: "product g = map (\<lambda>(c, s). c * s) (zip (avg_coherence g) (avg_score g))"
    by (auto simp: best_scale_def Let_def and_then_eq_Inr)
  have "\<forall>i<16. product g ! i = avg_coherence g ! i * avg_score g ! i"
    unfolding prd using len av by simp
  moreover have "length (product g) = 16"
    unfolding prd using len av by simp
  ultimately show ?thesis
    using len av scales_length [OF sc] by simp
qed

theorem graph_lists_parallel_witness:
  "analyse_steer demo_env (Some ''I think'') (Vec [1]) (JStr ''hp'') ''cfg'' ''SAE'' demo_world =
     (Inr (demo_result, demo_graph),
      snd (analyse_steer demo_env (Some ''I think'') (Vec [1]) (JStr ''hp'') ''cfg'' ''SAE'' demo_world)) \<and>
   length (scales demo_graph) = 16 \<and> length (avg_coherence demo_graph) = 16 \<and>
   length (avg_score demo_graph) = 16 \<and> length (product demo_graph) = 16 \<and>
   length (individual_scores demo_graph) = 16 \<and> length (individual_coherences demo_graph) = 16 \<and>
   length (individual_products demo_graph) = 16 \<and>
   product demo_graph ! 5 = avg_coherence demo_graph ! 5 * avg_score demo_graph ! 5 \<and>
   product demo_graph ! 15 = avg_coherence demo_graph ! 15 * avg_score demo_graph ! 15"
  using graph_lists_parallel [OF demo_run] demo_run by simp

lemma map_eq_map_Inr_nth:
  "map f xs = map Inr vs \<Longrightarrow> k < length xs \<Longrightarrow> f (xs ! k) = Inr (vs ! k)"
  by (metis length_map nth_map)

lemma scales_last: "py_range 0 320 20 = Inr scs \<Longrightarrow> last scs = 300"
  unfolding scales_value by auto

subsection \<open>The scales and the batches\<close>

text \<open>
  C3. \<open>analyse_steer\<close> sweeps \<^verbatim>\<open>range(0, 320, 20)\<close>, which is exactly 0, 20, ..., 300: 16
  values, the last one 300. At every scale it asks the sampler for 256 texts from one and
  the same prompt, and the batches it writes to \<^verbatim>\<open>generated_texts_<method>.json\<close> are the
  sampler's answers; a sampler that returns as many texts as it is asked for gives 256
  texts in every batch.
\<close>

theorem sweep_scales_and_batches:
  assumes "analyse_steer ev dp steer hp path method w = (Inr (r, g), w')"
    and "\<forall>prompt scale n txts. steer_model ev steer hp prompt scale n = Inr txts \<longrightarrow> length txts = n"
  shows "py_range 0 320 20 = Inr (scales g) \<and>
         scales g = [0, 20, 40, 60, 80, 100, 120, 140, 160, 180, 200, 220, 240, 260, 280, 300] \<and>
         length (scales g) = 16 \<and> last (scales g) = 300 \<and>
         (\<exists>prompt batches. length batches = 16 \<and>
            (path_join path (''generated_texts_'' @ method @ ''.json''), TextsOut (zip (scales g) batches))
              \<in> set (written w') \<and>
            (\<forall>k<16. steer_model ev steer hp prompt (scales g ! k) 256 = Inr (batches ! k) \<and>
                     length (batches ! k) = 256))"
proof -
  from analyse_steer_graph [OF assms(1)] obtain criteria prompt vs where
    vs: "map (evaluate_scale ev steer hp prompt criteria) (scales g) = map Inr vs" and
    sc: "py_range 0 320 20 = Inr (scales g)" and
    wr: "(path_join path (''generated_texts_'' @ method @ ''.json''), TextsOut (zip (scales g) (map texts vs)))
      \<in> set (written w')"
    by blast
  have len: "length vs = 16"
    using vs scales_length [OF sc] by (metis length_map)
  have batch: "steer_model ev steer hp prompt (scales g ! k) 256 = Inr (map texts vs ! k) \<and>
      length (map texts vs ! k) = 256" if "k < 16" for k
  proof -
    from that have k: "k < length (scales g)" using scales_length [OF sc] by simp
    from map_eq_map_Inr_nth [OF vs k]
    have "evaluate_scale ev steer hp prompt criteria (scales g ! k) = Inr (vs ! k)" .
    from evaluate_scale_Inr [OF this]
    have "steer_model ev steer hp prompt (scales g ! k) 256 = Inr (texts (vs ! k))" by blast
    with assms(2) that len show ?thesis by auto
  qed
  have "scales g = [0, 20, 40, 60, 80, 100, 120, 140, 160, 180, 200, 220, 240, 260, 280, 300]"
    using sc unfolding scales_value by simp
  moreover have "\<exists>prompt batches. length batches = 16 \<and>
            (path_join path (''generated_texts_'' @ method @ ''.json''), TextsOut (zip (scales g) batches))
              \<in> set (written w') \<and>
            (\<forall>k<16. steer_model ev steer hp prompt (scales g ! k) 256 = Inr (batches ! k) \<and>
                     length (batches ! k) = 256)"
    using len wr batch by (intro exI [of _ prompt] exI [of _ "map texts vs"]) simp
  ultimately show ?thesis
    using sc scales_length [OF sc] scales_last [OF sc] by blast
qed

theorem sweep_scales_and_batches_witness:
  "analyse_steer demo_env (Some ''I think'') (Vec [1]) (JStr ''hp'') ''cfg'' ''SAE'' demo_world =
     (Inr (demo_result, demo_graph),
      snd (analyse_steer demo_env (Some ''I think'') (Vec [1]) (JStr ''hp'') ''cfg'' ''SAE'' demo_world)) \<and>
   py_range 0 320 20 = Inr (scales demo_graph) \<and>
   scales demo_graph = [0, 20, 40, 60, 80, 100, 120, 140, 160, 180, 200, 220, 240, 260, 280, 300] \<and>
   length (scales demo_graph) = 16 \<and> last (scales demo_graph) = 300 \<and>
   (\<exists>prompt batches. length batches = 16 \<and>
      (path_join ''cfg'' (''generated_texts_'' @ ''SAE'' @ ''.json''), TextsOut (zip (scales demo_graph) batches))
        \<in> set (written (snd (analyse_steer demo_env (Some ''I think'') (Vec [1]) (JStr ''hp'') ''cfg'' ''SAE'' demo_world))) \<and>
      (\<forall>k<16. steer_model demo_env (Vec [1]) (JStr ''hp'') prompt (scales demo_graph ! k) 256 = Inr (batches ! k) \<and>
               length (batches ! k) = 256))"
proof -
  have h: "\<forall>prompt scale n txts.
      steer_model demo_env (Vec [1]) (JStr ''hp'') prompt scale n = Inr txts \<longrightarrow> length txts = n"
    by (auto simp: demo_env_def)
  show ?thesis
    using sweep_scales_and_batches [OF demo_run h] demo_run by blast
qed


subsection \<open>Rescaling\<close>



subsection \<open>load\_sae\_model\<close>

text \<open>
  C5. When the configuration has an \<^verbatim>\<open>sae_load_method\<close> that is neither \<^verbatim>\<open>'saelens'\<close> nor
  \<^verbatim>\<open>'gemmascope'\<close>, \<open>load_sae_model\<close> raises the \<^verbatim>\<open>ValueError\<close> whose message is
  \<^verbatim>\<open>Unknown sae_load_method: \<close> followed by that value, whatever the two back-ends would
  have returned: there is no fall-back to either of them.
\<close>

theorem unknown_load_method_raises:
  assumes "dict_lookup kvs ''sae_load_method'' = Some m"
    and "m \<noteq> JStr ''saelens''" and "m \<noteq> JStr ''gemmascope''"
  shows "load_sae_model ev (JObj kvs) = Inl (ValueError ''Unknown sae_load_method: '' m)"
  using assms by (simp add: load_sae_model_def json_get_def)

theorem unknown_load_method_raises_witness:
  "dict_lookup [(''sae'', JStr ''gemma-scope''), (''sae_load_method'', JStr ''eleuther'')] ''sae_load_method''
     = Some (JStr ''eleuther'') \<and>
   load_sae_model demo_env (JObj [(''sae'', JStr ''gemma-scope''), (''sae_load_method'', JStr ''eleuther'')])
     = Inl (ValueError ''Unknown sae_load_method: '' (JStr ''eleuther''))"
proof -
  have l: "dict_lookup [(''sae'', JStr ''gemma-scope''), (''sae_load_method'', JStr ''eleuther'')] ''sae_load_method''
     = Some (JStr ''eleuther'')"
    by (simp add: dict_lookup_def)
  have n: "JStr ''eleuther'' \<noteq> JStr ''saelens''" "JStr ''eleuther'' \<noteq> JStr ''gemmascope''"
    by simp_all
  show ?thesis
    using unknown_load_method_raises [OF l n] l by simp
qed

lemma load_sae_model_ValueError:
  assumes "load_sae_model ev config = Inl (ValueError msg v)"
  shows "\<exists>kvs. config = JObj kvs \<and> dict_lookup kvs ''sae_load_method'' = Some v \<and>
               v \<noteq> JStr ''saelens'' \<and> v \<noteq> JStr ''gemmascope''"
  using assms
  by (auto simp: load_sae_model_def json_get_def json_key_def and_then_def lift_lib_def
           split: json.splits option.splits sum.splits if_splits)

text \<open>
  C10. A configuration without the key \<^verbatim>\<open>sae_load_method\<close> is loaded exactly as the same
  configuration with \<^verbatim>\<open>sae_load_method = 'saelens'\<close>: the result is that of the saelens
  branch (the hub's autoencoder, decoder normalised, or that branch's own failure), and
  it is never the unrecognised-method error. Conversely, whenever \<open>load_sae_model\<close> raises
  that error, the key is present and its value is neither of the two supported ones.
\<close>

theorem missing_load_method_defaults_to_saelens:
  "(dict_lookup kvs ''sae_load_method'' = None \<longrightarrow>
      load_sae_model ev (JObj kvs) =
        load_sae_model ev (JObj (kvs @ [(''sae_load_method'', JStr ''saelens'')])) \<and>
      load_sae_model ev (JObj kvs) =
        and_then (json_key (JObj kvs) ''sae'') (\<lambda>release.
        and_then (json_key (JObj kvs) ''layer'') (\<lambda>sae_id.
        and_then (lift_lib (from_pretrained ev release sae_id)) (\<lambda>s.
        Inr (normalise_decoder ev s)))) \<and>
      (\<forall>msg v. load_sae_model ev (JObj kvs) \<noteq> Inl (ValueError msg v))) \<and>
   (load_sae_model ev config = Inl (ValueError msg v) \<longrightarrow>
      (\<exists>kvs. config = JObj kvs \<and> dict_lookup kvs ''sae_load_method'' = Some v \<and>
             v \<noteq> JStr ''saelens'' \<and> v \<noteq> JStr ''gemmascope''))"
proof (intro conjI impI)
  assume none: "dict_lookup kvs ''sae_load_method'' = None"
  show branch: "load_sae_model ev (JObj kvs) =
        and_then (json_key (JObj kvs) ''sae'') (\<lambda>release.
        and_then (json_key (JObj kvs) ''layer'') (\<lambda>sae_id.
        and_then (lift_lib (from_pretrained ev release sae_id)) (\<lambda>s.
        Inr (normalise_decoder ev s))))"
    using none by (simp add: load_sae_model_def json_get_def)
  have "dict_lookup (kvs @ [(''sae_load_method'', JStr ''saelens'')]) k =
        (if k = ''sae_load_method'' then Some (JStr ''saelens'') else dict_lookup kvs k)" for k
    by (simp add: dict_lookup_def)
  then show "load_sae_model ev (JObj kvs) =
        load_sae_model ev (JObj (kvs @ [(''sae_load_method'', JStr ''saelens'')]))"
    unfolding branch by (simp add: load_sae_model_def json_get_def json_key_def)
  show "\<forall>msg v. load_sae_model ev (JObj kvs) \<noteq> Inl (ValueError msg v)"
    using load_sae_model_ValueError [of ev "JObj kvs"] none by auto
next
  assume "load_sae_model ev config = Inl (ValueError msg v)"
  then show "\<exists>kvs. config = JObj kvs \<and> dict_lookup kvs ''sae_load_method'' = Some v \<and>
             v \<noteq> JStr ''saelens'' \<and> v \<noteq> JStr ''gemmascope''"
    by (rule load_sae_model_ValueError)
qed

theorem missing_load_method_defaults_to_saelens_witness:
  "dict_lookup [(''sae'', JStr ''gemma-scope''), (''layer'', JInt 12)] ''sae_load_method'' = None \<and>
   load_sae_model demo_env (JObj [(''sae'', JStr ''gemma-scope''), (''layer'', JInt 12)]) =
     load_sae_model demo_env
       (JObj ([(''sae'', JStr ''gemma-scope''), (''layer'', JInt 12)] @ [(''sae_load_method'', JStr ''saelens'')])) \<and>
   load_sae_model demo_env (JObj [(''sae'', JStr ''gemma-scope''), (''layer'', JInt 12)]) =
     Inr \<lparr>W_enc = [[1, 0]], W_dec = [[0, 1], [1, 0]]\<rparr> \<and>
   load_sae_model demo_env (JObj [(''sae_load_method'', JStr ''hub'')]) =
     Inl (ValueError ''Unknown sae_load_method: '' (JStr ''hub'')) \<and>
   (\<exists>kvs. JObj [(''sae_load_method'', JStr ''hub'')] = JObj kvs \<and>
          dict_lookup kvs ''sae_load_method'' = Some (JStr ''hub'') \<and>
          JStr ''hub'' \<noteq> JStr ''saelens'' \<and> JStr ''hub'' \<noteq> JStr ''gemmascope'')"
proof -
  have none: "dict_lookup [(''sae'', JStr ''gemma-scope''), (''layer'', JInt 12)] ''sae_load_method'' = None"
    by (simp add: dict_lookup_def)
  have bad: "load_sae_model demo_env (JObj [(''sae_load_method'', JStr ''hub'')]) =
     Inl (ValueError ''Unknown sae_load_method: '' (JStr ''hub''))"
    by (simp add: load_sae_model_def json_get_def dict_lookup_def)
  have val: "and_then (json_key (JObj [(''sae'', JStr ''gemma-scope''), (''layer'', JInt 12)]) ''sae'') (\<lambda>release.
        and_then (json_key (JObj [(''sae'', JStr ''gemma-scope''), (''layer'', JInt 12)]) ''layer'') (\<lambda>sae_id.
        and_then (lift_lib (from_pretrained demo_env release sae_id)) (\<lambda>s.
        Inr (normalise_decoder demo_env s)))) = Inr \<lparr>W_enc = [[1, 0]], W_dec = [[0, 1], [1, 0]]\<rparr>"
    by (simp add: json_key_def dict_lookup_def demo_env_def lift_lib_def)
  from missing_load_method_defaults_to_saelens
    [of "[(''sae'', JStr ''gemma-scope''), (''layer'', JInt 12)]" demo_env
        "JObj [(''sae_load_method'', JStr ''hub'')]" "''Unknown sae_load_method: ''" "JStr ''hub''"]
    none bad val
  show ?thesis by metis
qed

lemma select_prompt_None:
  "select_prompt None path w = (Inr prompt, w1) \<longleftrightarrow>
   (\<exists>j. files w (path_join path ''prompts.json'') = Some (JsonFile j) \<and> json_first j = Inr prompt \<and>
        w1 = w\<lparr>opened := opened w @ [path_join path ''prompts.json'']\<rparr>)"
  by (auto simp: select_prompt_def io_bind_def io_pure_def read_json_def
           split: option.splits file_content.splits)

lemma analyse_steer_default_prompt_opened:
  assumes "analyse_steer ev (Some p) steer hp path method w = (res, w')"
  shows "opened w' = opened w \<or> opened w' = opened w @ [path_join path ''criteria.json'']"
  using assms unfolding analyse_steer_def select_prompt_def plot_def
  by (auto simp: io_bind_def io_pure_def read_json_def write_file_def
           split: prod.splits sum.splits option.splits file_content.splits json.splits if_splits)

lemma criteria_is_not_prompts: "path_join path ''criteria.json'' \<noteq> path_join path ''prompts.json''"
  by (simp add: path_join_def)

subsection \<open>The prompt\<close>

text \<open>
  C8. With the default prompt set, \<open>select_prompt\<close> returns it and opens no file, and a
  call of \<open>analyse_steer\<close>, also one that fails, opens at most \<^verbatim>\<open>criteria.json\<close>, never
  \<^verbatim>\<open>prompts.json\<close>. With the default unset, the prompt is what \<^verbatim>\<open>[0]\<close> selects from the
  contents of \<^verbatim>\<open>prompts.json\<close>, which is then opened: for a list, its first element. The
  prompt so selected is the one given to the sampler at each of the 16 scales.
\<close>

theorem prompt_selection:
  "select_prompt (Some p) path w = (Inr (JStr p), w) \<and>
   (analyse_steer ev (Some p) steer hp path method w = (res, w') \<longrightarrow>
      (opened w' = opened w \<or> opened w' = opened w @ [path_join path ''criteria.json'']) \<and>
      path_join path ''criteria.json'' \<noteq> path_join path ''prompts.json'') \<and>
   (select_prompt None path w = (Inr prompt, w1) \<longrightarrow>
      (\<exists>j. files w (path_join path ''prompts.json'') = Some (JsonFile j) \<and>
           json_first j = Inr prompt \<and>
           w1 = w\<lparr>opened := opened w @ [path_join path ''prompts.json'']\<rparr>)) \<and>
   (files w (path_join path ''prompts.json'') = Some (JsonFile (JList (x # xs))) \<longrightarrow>
      select_prompt None path w = (Inr x, w\<lparr>opened := opened w @ [path_join path ''prompts.json'']\<rparr>)) \<and>
   (analyse_steer ev dp steer hp path method w = (Inr (r, g), w'') \<longrightarrow>
      (\<exists>criteria sel w2 w3.
         read_json (path_join path ''criteria.json'') w = (Inr criteria, w2) \<and>
         select_prompt dp path w2 = (Inr sel, w3) \<and>
         (\<forall>k<16. \<exists>txts. steer_model ev steer hp sel (scales g ! k) 256 = Inr txts)))"
proof (intro conjI impI)
  show "select_prompt (Some p) path w = (Inr (JStr p), w)"
    by (simp add: select_prompt_def io_pure_def)
next
  assume "analyse_steer ev (Some p) steer hp path method w = (res, w')"
  then show "opened w' = opened w \<or> opened w' = opened w @ [path_join path ''criteria.json'']"
    by (rule analyse_steer_default_prompt_opened)
next
  show "path_join path ''criteria.json'' \<noteq> path_join path ''prompts.json''"
    by (rule criteria_is_not_prompts)
next
  assume "select_prompt None path w = (Inr prompt, w1)"
  then show "\<exists>j. files w (path_join path ''prompts.json'') = Some (JsonFile j) \<and>
           json_first j = Inr prompt \<and>
           w1 = w\<lparr>opened := opened w @ [path_join path ''prompts.json'']\<rparr>"
    by (simp add: select_prompt_None)
next
  assume "files w (path_join path ''prompts.json'') = Some (JsonFile (JList (x # xs)))"
  then show "select_prompt None path w = (Inr x, w\<lparr>opened := opened w @ [path_join path ''prompts.json'']\<rparr>)"
    by (simp add: select_prompt_None json_first_def)
next
  assume run: "analyse_steer ev dp steer hp path method w = (Inr (r, g), w'')"
  from analyse_steer_graph [OF run] obtain criteria sel vs w2 w3 where
    rd: "read_json (path_join path ''criteria.json'') w = (Inr criteria, w2)" and
    sp: "select_prompt dp path w2 = (Inr sel, w3)" and
    vs: "map (evaluate_scale ev steer hp sel criteria) (scales g) = map Inr vs" and
    sc: "py_range 0 320 20 = Inr (scales g)"
    by blast
  have "\<exists>txts. steer_model ev steer hp sel (scales g ! k) 256 = Inr txts" if "k < 16" for k
  proof -
    from that have k: "k < length (scales g)" using scales_length [OF sc] by simp
    from map_eq_map_Inr_nth [OF vs k]
    have "evaluate_scale ev steer hp sel criteria (scales g ! k) = Inr (vs ! k)" .
    from evaluate_scale_Inr [OF this] show ?thesis by blast
  qed
  with rd sp show "\<exists>criteria sel w2 w3.
         read_json (path_join path ''criteria.json'') w = (Inr criteria, w2) \<and>
         select_prompt dp path w2 = (Inr sel, w3) \<and>
         (\<forall>k<16. \<exists>txts. steer_model ev steer hp sel (scales g ! k) 256 = Inr txts)"
    by blast
qed

theorem prompt_selection_witness:
  "select_prompt (Some ''I think'') ''cfg'' demo_world = (Inr (JStr ''I think''), demo_world) \<and>
   analyse_steer demo_env (Some ''I think'') (Vec [1]) (JStr ''hp'') ''cfg'' ''SAE'' demo_world =
     (Inr (demo_result, demo_graph),
      snd (analyse_steer demo_env (Some ''I think'') (Vec [1]) (JStr ''hp'') ''cfg'' ''SAE'' demo_world)) \<and>
   (opened (snd (analyse_steer demo_env (Some ''I think'') (Vec [1]) (JStr ''hp'') ''cfg'' ''SAE'' demo_world))
      = opened demo_world \<or>
    opened (snd (analyse_steer demo_env (Some ''I think'') (Vec [1]) (JStr ''hp'') ''cfg'' ''SAE'' demo_world))
      = opened demo_world @ [path_join ''cfg'' ''criteria.json'']) \<and>
   files prompts_world (path_join ''cfg'' ''prompts.json'') =
     Some (JsonFile (JList (JStr ''Once upon a time'' # [JStr ''unused'']))) \<and>
   select_prompt None ''cfg'' prompts_world =
     (Inr (JStr ''Once upon a time''),
      prompts_world\<lparr>opened := opened prompts_world @ [path_join ''cfg'' ''prompts.json'']\<rparr>) \<and>
   (\<exists>criteria sel w2 w3.
      read_json (path_join ''cfg'' ''criteria.json'') demo_world = (Inr criteria, w2) \<and>
      select_prompt (Some ''I think'') ''cfg'' w2 = (Inr sel, w3) \<and>
      (\<forall>k<16. \<exists>txts. steer_model demo_env (Vec [1]) (JStr ''hp'') sel (scales demo_graph ! k) 256 = Inr txts))"
proof -
  have f: "files prompts_world (path_join ''cfg'' ''prompts.json'') =
     Some (JsonFile (JList (JStr ''Once upon a time'' # [JStr ''unused''])))"
    by (simp add: prompts_world_def path_join_def)
  note a = prompt_selection [of "''I think''" "''cfg''" demo_world demo_env "Vec [1]" "JStr ''hp''" "''SAE''"
    "Inr (demo_result, demo_graph)"
    "snd (analyse_steer demo_env (Some ''I think'') (Vec [1]) (JStr ''hp'') ''cfg'' ''SAE'' demo_world)"
    _ _ _ _ "Some ''I think''" demo_result demo_graph
    "snd (analyse_steer demo_env (Some ''I think'') (Vec [1]) (JStr ''hp'') ''cfg'' ''SAE'' demo_world)"]
  note b = prompt_selection [of _ "''cfg''" prompts_world _ _ _ _ _ _ _ _ "JStr ''Once upon a time''" "[JStr ''unused'']"]
  show ?thesis
    using a b f demo_run by blast
qed

lemma io_bind_Inl: "m w = (Inl e, w') \<Longrightarrow> io_bind m f w = (Inl e, w')"
  by (simp add: io_bind_def)

lemma io_bind_Inr: "m w = (Inr x, w1) \<Longrightarrow> io_bind m f w = f x w1"
  by (simp add: io_bind_def)

lemma run_methods_stops:
  assumes "run_methods ev dp path earlier acc w = (Inr acc1, w1)"
    and "method_round ev dp path acc1 m w1 = (Inl e, w2)"
  shows "run_methods ev dp path (earlier @ m # later) acc w = (Inl e, w2)"
  using assms
proof (induction earlier arbitrary: acc w)
  case Nil
  then show ?case by (simp add: io_pure_eq io_bind_Inl)
next
  case (Cons a earlier)
  from Cons.prems(1) obtain acc' w' where
    a: "method_round ev dp path acc a w = (Inr acc', w')" and
    r: "run_methods ev dp path earlier acc' w' = (Inr acc1, w1)"
    by (auto simp: io_bind_eq_Inr)
  from Cons.IH [OF r Cons.prems(2)] a show ?case
    by (simp add: io_bind_Inr)
qed

lemma sweep_paths_stops:
  assumes "sweep_paths ev dp big before acc w = (Inr acc0, w0)"
    and "run_path ev dp big path acc0 w0 = (Inl e, w2)"
  shows "sweep_paths ev dp big (before @ path # rest) acc w = (Inl e, w2)"
  using assms
proof (induction before arbitrary: acc w)
  case Nil
  then show ?case by (simp add: io_pure_eq io_bind_Inl)
next
  case (Cons a before)
  from Cons.prems(1) obtain acc' w' where
    a: "run_path ev dp big a acc w = (Inr acc', w')" and
    r: "sweep_paths ev dp big before acc' w' = (Inr acc0, w0)"
    by (auto simp: io_bind_eq_Inr)
  from Cons.IH [OF r Cons.prems(2)] a show ?case
    by (simp add: io_bind_Inr)
qed

lemma analyse_steer_write_fails:
  assumes "py_range 0 320 20 = Inr scs"
    and "read_json (path_join path ''criteria.json'') w = (Inr criteria, w1)"
    and "select_prompt dp path w1 = (Inr prompt, w2)"
    and "and_then (json_first criteria) (\<lambda>c0. json_get c0 ''name'' (JStr ''Unknown'')) = Inr (JStr name)"
    and "sweep ev steer hp prompt criteria no_lists scs = Inr ls"
    and "best_scale scs (avg_coh_acc ls) (avg_score_acc ls) = Inr best"
    and "\<not> writable w2 (path_join path (''generated_texts_'' @ method @ ''.json'')) \<or>
         \<not> writable w2 (path_join path (''scores_'' @ safe_name name @ ''_'' @ method @ ''.png''))"
  shows "fst (analyse_steer ev dp steer hp path method w) =
           Inl (OSError
             (if writable w2 (path_join path (''generated_texts_'' @ method @ ''.json''))
              then path_join path (''scores_'' @ safe_name name @ ''_'' @ method @ ''.png'')
              else path_join path (''generated_texts_'' @ method @ ''.json'')))"
  using assms unfolding analyse_steer_def
  by (cases best) (auto simp: io_bind_def io_pure_def write_file_def plot_def)

subsection \<open>Failures while writing\<close>

text \<open>
  C7, as the code has it. Nothing in the script catches an exception. When the texts or
  the chart of a pairing cannot be written, \<open>analyse_steer\<close> ends with the \<^verbatim>\<open>OSError\<close> of
  the first file that failed; and when \<open>analyse_steer\<close> fails for a pairing, in whatever way,
  the whole run ends with that error in the state reached at the failure: no later
  method and no later configuration is processed, and neither run-wide file is written.
  The run-wide results file failing to open ends the run in the same way.
\<close>

theorem output_failure_ends_run:
  "(py_range 0 320 20 = Inr scs \<and>
    read_json (path_join path ''criteria.json'') w2 = (Inr criteria, w3) \<and>
    select_prompt dp path w3 = (Inr prompt, w4) \<and>
    and_then (json_first criteria) (\<lambda>c0. json_get c0 ''name'' (JStr ''Unknown'')) = Inr (JStr name) \<and>
    sweep ev steer hp prompt criteria no_lists scs = Inr ls \<and>
    best_scale scs (avg_coh_acc ls) (avg_score_acc ls) = Inr best \<and>
    (\<not> writable w4 (path_join path (''generated_texts_'' @ method @ ''.json'')) \<or>
     \<not> writable w4 (path_join path (''scores_'' @ safe_name name @ ''_'' @ method @ ''.png''))) \<longrightarrow>
    fst (analyse_steer ev dp steer hp path method w2) =
      Inl (OSError
        (if writable w4 (path_join path (''generated_texts_'' @ method @ ''.json''))
         then path_join path (''scores_'' @ safe_name name @ ''_'' @ method @ ''.png'')
         else path_join path (''generated_texts_'' @ method @ ''.json'')))) \<and>
   (sweep_paths ev dp big before ([], []) w = (Inr acc0, w0) \<and>
    methods ev path big = earlier @ (loader, method) # later \<and>
    run_methods ev dp path earlier acc0 w0 = (Inr acc1, w1) \<and>
    loader w1 = (Inr (steer, hp, layer), w2) \<and>
    analyse_steer ev dp steer hp path method w2 = (Inl e, w5) \<longrightarrow>
    main ev dp big model_name (before @ path # rest) w = (Inl e, w5)) \<and>
   (sweep_paths ev dp big paths ([], []) w = (Inr (results, graphs), w6) \<and>
    \<not> writable w6 (''steering_results_'' @ model_name @ ''.json'') \<longrightarrow>
    main ev dp big model_name paths w = (Inl (OSError (''steering_results_'' @ model_name @ ''.json'')), w6))"
proof (intro conjI impI)
  assume "py_range 0 320 20 = Inr scs \<and>
    read_json (path_join path ''criteria.json'') w2 = (Inr criteria, w3) \<and>
    select_prompt dp path w3 = (Inr prompt, w4) \<and>
    and_then (json_first criteria) (\<lambda>c0. json_get c0 ''name'' (JStr ''Unknown'')) = Inr (JStr name) \<and>
    sweep ev steer hp prompt criteria no_lists scs = Inr ls \<and>
    best_scale scs (avg_coh_acc ls) (avg_score_acc ls) = Inr best \<and>
    (\<not> writable w4 (path_join path (''generated_texts_'' @ method @ ''.json'')) \<or>
     \<not> writable w4 (path_join path (''scores_'' @ safe_name name @ ''_'' @ method @ ''.png'')))"
  then show "fst (analyse_steer ev dp steer hp path method w2) =
      Inl (OSError
        (if writable w4 (path_join path (''generated_texts_'' @ method @ ''.json''))
         then path_join path (''scores_'' @ safe_name name @ ''_'' @ method @ ''.png'')
         else path_join path (''generated_texts_'' @ method @ ''.json'')))"
    using analyse_steer_write_fails [of scs path w2 criteria w3 dp prompt w4 name ev steer hp ls best "method"]
    by blast
next
  assume h: "sweep_paths ev dp big before ([], []) w = (Inr acc0, w0) \<and>
    methods ev path big = earlier @ (loader, method) # later \<and>
    run_methods ev dp path earlier acc0 w0 = (Inr acc1, w1) \<and>
    loader w1 = (Inr (steer, hp, layer), w2) \<and>
    analyse_steer ev dp steer hp path method w2 = (Inl e, w5)"
  then have "method_round ev dp path acc1 (loader, method) w1 = (Inl e, w5)"
    by (simp add: method_round_def io_bind_def)
  with h have "run_path ev dp big path acc0 w0 = (Inl e, w5)"
    unfolding run_path_def by (simp add: run_methods_stops)
  with h have "sweep_paths ev dp big (before @ path # rest) ([], []) w = (Inl e, w5)"
    by (simp add: sweep_paths_stops)
  then show "main ev dp big model_name (before @ path # rest) w = (Inl e, w5)"
    unfolding main_def by (rule io_bind_Inl)
next
  assume "sweep_paths ev dp big paths ([], []) w = (Inr (results, graphs), w6) \<and>
    \<not> writable w6 (''steering_results_'' @ model_name @ ''.json'')"
  then show "main ev dp big model_name paths w =
      (Inl (OSError (''steering_results_'' @ model_name @ ''.json'')), w6)"
    by (simp add: main_def io_bind_def write_file_def)
qed

lemma str_int_7: "str_int 7 = ''7''"
  by code_simp

lemma quick_act:
  "load_activation_steer quick_env p = Inr (Vec [0, 1], JStr ''blocks.7.hook_resid_post'', JInt 7)"
  by (simp add: load_activation_steer_def quick_env_def demo_env_def lift_lib_def normalise_def
        norm32_def bound32_def l2norm_def str_int_7 Let_def)

lemma quick_sweep_ok:
  "(case sweep quick_env (Vec [0, 1]) (JStr ''blocks.7.hook_resid_post'') (JStr ''I think'') demo_criteria no_lists
          [0, 20, 40, 60, 80, 100, 120, 140, 160, 180, 200, 220, 240, 260, 280, 300] of
      Inl e \<Rightarrow> False
    | Inr ls \<Rightarrow>
        (case best_scale [0, 20, 40, 60, 80, 100, 120, 140, 160, 180, 200, 220, 240, 260, 280, 300]
                (avg_coh_acc ls) (avg_score_acc ls) of
           Inl e \<Rightarrow> False | Inr best \<Rightarrow> True))"
  by code_simp

lemma both_Inr:
  "(case x of Inl e \<Rightarrow> False | Inr y \<Rightarrow> (case f y of Inl e \<Rightarrow> False | Inr z \<Rightarrow> True)) \<Longrightarrow>
   \<exists>y z. x = Inr y \<and> f y = Inr z"
  by (cases x) (auto split: sum.splits)

lemma quick_sweep:
  "\<exists>ls best.
     sweep quick_env (Vec [0, 1]) (JStr ''blocks.7.hook_resid_post'') (JStr ''I think'') demo_criteria no_lists
       [0, 20, 40, 60, 80, 100, 120, 140, 160, 180, 200, 220, 240, 260, 280, 300] = Inr ls \<and>
     best_scale [0, 20, 40, 60, 80, 100, 120, 140, 160, 180, 200, 220, 240, 260, 280, 300]
       (avg_coh_acc ls) (avg_score_acc ls) = Inr best"
  by (rule both_Inr [OF quick_sweep_ok])

lemma locked_analyse:
  "fst (analyse_steer quick_env (Some ''I think'') (Vec [0, 1]) (JStr ''blocks.7.hook_resid_post'') ''cfg''
          ''ActSteer'' locked_world) = Inl (OSError ''cfg/generated_texts_ActSteer.json'') \<and>
   opened (snd (analyse_steer quick_env (Some ''I think'') (Vec [0, 1]) (JStr ''blocks.7.hook_resid_post'') ''cfg''
          ''ActSteer'' locked_world)) = [''cfg/criteria.json''] \<and>
   written (snd (analyse_steer quick_env (Some ''I think'') (Vec [0, 1]) (JStr ''blocks.7.hook_resid_post'') ''cfg''
          ''ActSteer'' locked_world)) = []"
  by code_simp

lemma locked_analyse_pair:
  "analyse_steer quick_env (Some ''I think'') (Vec [0, 1]) (JStr ''blocks.7.hook_resid_post'') ''cfg''
          ''ActSteer'' locked_world =
     (Inl (OSError ''cfg/generated_texts_ActSteer.json''),
      snd (analyse_steer quick_env (Some ''I think'') (Vec [0, 1]) (JStr ''blocks.7.hook_resid_post'') ''cfg''
          ''ActSteer'' locked_world))"
  using locked_analyse by (metis prod.collapse)

lemma quick_act_io:
  "io_pure (load_activation_steer quick_env ''cfg'') locked_world =
     (Inr (Vec [0, 1], JStr ''blocks.7.hook_resid_post'', JInt 7), locked_world)"
  by (simp add: io_pure_def quick_act)

lemma locked_round:
  "method_round quick_env (Some ''I think'') ''cfg'' ([], [])
          (io_pure (load_activation_steer quick_env ''cfg''), ''ActSteer'') locked_world =
     (Inl (OSError ''cfg/generated_texts_ActSteer.json''),
      snd (analyse_steer quick_env (Some ''I think'') (Vec [0, 1]) (JStr ''blocks.7.hook_resid_post'') ''cfg''
          ''ActSteer'' locked_world))"
  unfolding method_round_def fst_conv snd_conv
  apply (subst io_bind_def)
  apply (simp only: quick_act_io prod.case sum.case)
  apply (rule io_bind_Inl)
  apply (rule locked_analyse_pair)
  done

lemma locked_main:
  "main quick_env (Some ''I think'') True ''gemma-2-9b'' [''cfg'', ''cfg2''] locked_world =
     (Inl (OSError ''cfg/generated_texts_ActSteer.json''),
      snd (analyse_steer quick_env (Some ''I think'') (Vec [0, 1]) (JStr ''blocks.7.hook_resid_post'') ''cfg''
          ''ActSteer'' locked_world))"
proof -
  have "run_path quick_env (Some ''I think'') True ''cfg'' ([], []) locked_world =
     (Inl (OSError ''cfg/generated_texts_ActSteer.json''),
      snd (analyse_steer quick_env (Some ''I think'') (Vec [0, 1]) (JStr ''blocks.7.hook_resid_post'') ''cfg''
          ''ActSteer'' locked_world))"
    unfolding run_path_def methods_def run_methods.simps
    using locked_round by (rule io_bind_Inl)
  then have "sweep_paths quick_env (Some ''I think'') True [''cfg'', ''cfg2''] ([], []) locked_world =
     (Inl (OSError ''cfg/generated_texts_ActSteer.json''),
      snd (analyse_steer quick_env (Some ''I think'') (Vec [0, 1]) (JStr ''blocks.7.hook_resid_post'') ''cfg''
          ''ActSteer'' locked_world))"
    unfolding sweep_paths.simps by (rule io_bind_Inl)
  then show ?thesis
    unfolding main_def by (rule io_bind_Inl)
qed

text \<open>
  The run does not go on after a failed write: with the configurations \<^verbatim>\<open>cfg\<close> and
  \<^verbatim>\<open>cfg2\<close>, both complete, and the texts of \<^verbatim>\<open>cfg\<close> under \<^verbatim>\<open>ActSteer\<close> not writable, the run
  ends with the \<^verbatim>\<open>OSError\<close>, having opened no file of \<^verbatim>\<open>cfg2\<close> and written nothing.
\<close>

theorem write_failure_aborts_sweep:
  "files locked_world ''cfg2/criteria.json'' = Some (JsonFile demo_criteria) \<and>
   writable locked_world ''cfg2/generated_texts_ActSteer.json'' \<and>
   fst (main quick_env (Some ''I think'') True ''gemma-2-9b'' [''cfg'', ''cfg2''] locked_world) =
     Inl (OSError ''cfg/generated_texts_ActSteer.json'') \<and>
   opened (snd (main quick_env (Some ''I think'') True ''gemma-2-9b'' [''cfg'', ''cfg2''] locked_world)) =
     [''cfg/criteria.json''] \<and>
   written (snd (main quick_env (Some ''I think'') True ''gemma-2-9b'' [''cfg'', ''cfg2''] locked_world)) = []"
proof -
  have "files locked_world ''cfg2/criteria.json'' = Some (JsonFile demo_criteria)"
    "writable locked_world ''cfg2/generated_texts_ActSteer.json''"
    by (simp_all add: locked_world_def demo_world_def)
  then show ?thesis
    using locked_analyse unfolding locked_main by simp
qed

theorem output_failure_ends_run_witness:
  "fst (analyse_steer quick_env (Some ''I think'') (Vec [0, 1]) (JStr ''blocks.7.hook_resid_post'') ''cfg''
          ''ActSteer'' locked_world) = Inl (OSError ''cfg/generated_texts_ActSteer.json'') \<and>
   main quick_env (Some ''I think'') True ''gemma-2-9b'' ([] @ ''cfg'' # [''cfg2'']) locked_world =
     (Inl (OSError ''cfg/generated_texts_ActSteer.json''),
      snd (analyse_steer quick_env (Some ''I think'') (Vec [0, 1]) (JStr ''blocks.7.hook_resid_post'') ''cfg''
          ''ActSteer'' locked_world)) \<and>
   main quick_env (Some ''I think'') True ''gemma-2-9b'' [] (demo_world\<lparr>writable := (\<lambda>p. False)\<rparr>) =
     (Inl (OSError (''steering_results_'' @ ''gemma-2-9b'' @ ''.json'')), demo_world\<lparr>writable := (\<lambda>p. False)\<rparr>)"
proof -
  let ?hp = "JStr ''blocks.7.hook_resid_post''"
  let ?scs = "[0, 20, 40, 60, 80, 100, 120, 140, 160, 180, 200, 220, 240, 260, 280, 300] :: int list"
  let ?w = "locked_world\<lparr>opened := opened locked_world @ [path_join ''cfg'' ''criteria.json'']\<rparr>"
  let ?texts = "path_join ''cfg'' (''generated_texts_'' @ ''ActSteer'' @ ''.json'')"
  from quick_sweep obtain ls best where
    sw: "sweep quick_env (Vec [0, 1]) ?hp (JStr ''I think'') demo_criteria no_lists ?scs = Inr ls" and
    bs: "best_scale ?scs (avg_coh_acc ls) (avg_score_acc ls) = Inr best"
    by blast
  have rd: "read_json (path_join ''cfg'' ''criteria.json'') locked_world = (Inr demo_criteria, ?w)"
    by (simp add: read_json_def path_join_def locked_world_def demo_world_def)
  have sp: "select_prompt (Some ''I think'') ''cfg'' ?w = (Inr (JStr ''I think''), ?w)"
    by (simp add: select_prompt_def io_pure_def)
  have nm: "and_then (json_first demo_criteria) (\<lambda>c0. json_get c0 ''name'' (JStr ''Unknown'')) = Inr (JStr ''anger'')"
    by (simp add: demo_criteria_def json_first_def json_get_def dict_lookup_def)
  have nw: "\<not> writable ?w ?texts"
    by (simp add: locked_world_def path_join_def)
  have tname: "?texts = ''cfg/generated_texts_ActSteer.json''"
    by (simp add: path_join_def)
  have "fst (analyse_steer quick_env (Some ''I think'') (Vec [0, 1]) ?hp ''cfg'' ''ActSteer'' locked_world) =
      Inl (OSError (if writable ?w ?texts
         then path_join ''cfg'' (''scores_'' @ safe_name ''anger'' @ ''_'' @ ''ActSteer'' @ ''.png'')
         else ?texts))"
    using output_failure_ends_run [THEN conjunct1, rule_format, of ?scs "''cfg''" locked_world demo_criteria ?w
      "Some ''I think''" "JStr ''I think''" ?w "''anger''" quick_env "Vec [0, 1]" ?hp ls best "''ActSteer''"]
      scales_value rd sp nm sw bs nw
    by blast
  then have first: "fst (analyse_steer quick_env (Some ''I think'') (Vec [0, 1]) ?hp ''cfg'' ''ActSteer'' locked_world) =
      Inl (OSError ''cfg/generated_texts_ActSteer.json'')"
    using nw by (simp only: if_False tname)
  have sp0: "sweep_paths quick_env (Some ''I think'') True [] ([], []) locked_world = (Inr ([], []), locked_world)"
    by (simp add: io_pure_def)
  have ms: "methods quick_env ''cfg'' True =
      [] @ (io_pure (load_activation_steer quick_env ''cfg''), ''ActSteer'') #
        [(load_sae_steer quick_env ''cfg'', ''SAE''),
         (load_optimised_steer quick_env ''cfg'' True, ''OptimisedSteer''),
         (load_pinv_steer quick_env ''cfg'' True, ''PinverseSteer'')]"
    by (simp add: methods_def)
  have rm: "run_methods quick_env (Some ''I think'') ''cfg'' [] ([], []) locked_world = (Inr ([], []), locked_world)"
    by (simp add: io_pure_def)
  have second: "main quick_env (Some ''I think'') True ''gemma-2-9b'' ([] @ ''cfg'' # [''cfg2'']) locked_world =
     (Inl (OSError ''cfg/generated_texts_ActSteer.json''),
      snd (analyse_steer quick_env (Some ''I think'') (Vec [0, 1]) ?hp ''cfg'' ''ActSteer'' locked_world))"
    by (rule output_failure_ends_run [THEN conjunct2, THEN conjunct1, rule_format,
          OF conjI [OF sp0 conjI [OF ms conjI [OF rm conjI [OF quick_act_io locked_analyse_pair]]]]])
  have sp1: "sweep_paths quick_env (Some ''I think'') True [] ([], []) (demo_world\<lparr>writable := (\<lambda>p. False)\<rparr>) =
      (Inr ([], []), demo_world\<lparr>writable := (\<lambda>p. False)\<rparr>)"
    by (simp add: io_pure_def)
  have nw1: "\<not> writable (demo_world\<lparr>writable := (\<lambda>p. False)\<rparr>) (''steering_results_'' @ ''gemma-2-9b'' @ ''.json'')"
    by simp
  have third: "main quick_env (Some ''I think'') True ''gemma-2-9b'' [] (demo_world\<lparr>writable := (\<lambda>p. False)\<rparr>) =
     (Inl (OSError (''steering_results_'' @ ''gemma-2-9b'' @ ''.json'')), demo_world\<lparr>writable := (\<lambda>p. False)\<rparr>)"
    by (rule output_failure_ends_run [THEN conjunct2, THEN conjunct2, rule_format, OF conjI [OF sp1 nw1]])
  show ?thesis
    using first second third by blast
qed


lemma l2norm_pair_0: "l2norm [x, 0] = \<bar>x\<bar>" "l2norm [0, x] = \<bar>x\<bar>"
  by (simp_all add: l2norm_def)

lemma demo_sae_model: "load_sae_model demo_env demo_config = Inr \<lparr>W_enc = [[1, 0]], W_dec = [[0, 1], [1, 0]]\<rparr>"
  by (simp add: load_sae_model_def demo_config_def json_get_def json_key_def dict_lookup_def
        demo_env_def lift_lib_def)

lemma demo_features:
  "json_key demo_config ''features'' = Inr (JList [JList [JInt 0, JInt 2]])"
  "json_key demo_config ''hp'' = Inr (JStr ''blocks.12.hook_resid_post'')"
  "json_key demo_config ''layer'' = Inr (JInt 12)"
  by (simp_all add: demo_config_def json_key_def dict_lookup_def)


lemma demo_pinverse:
  "pinverse_steer (linalg_pinv demo_env) \<lparr>W = [[1, 0], [0, 1]], b = [- 1, 0]\<rparr> [2, 0] 1 = Inr (Vec [2, 0])"
  by (simp add: pinverse_steer_def normalise_def norm32_def bounded_def bound32_def l2norm_pair_0
        vscale_def tscale_def tsub_def vsub_def tvecmat_def vecmat_def demo_env_def ncols_def
        column_def dot_def upt_rec Let_def)

lemma demo_pair: "feature_pair (JList [JInt 0, JInt 2]) = Inr (Position 0, 2)"
  by (simp add: feature_pair_def feature_entry_def feature_scale_def feature_id_def)

lemma demo_target:
  "set_features (replicate (ncols [[1, 0], [0, 1]]) 0) [JList [JInt 0, JInt 2]] = Inr [2, 0]"
  by (simp add: ncols_def demo_pair assign_def py_set_def py_index_def replicate_Suc numeral_2_eq_2)

lemma demo_load_target:
  "load_adapter_target demo_env ''cfg'' True demo_world =
     (Inr (demo_config, JInt 12, \<lparr>W = [[1, 0], [0, 1]], b = [- 1, 0]\<rparr>, [2, 0]),
      demo_world\<lparr>opened := [''cfg/optimised_steer.json'']\<rparr>)"
  unfolding load_adapter_target_def
  by (simp add: io_bind_def io_pure_def read_json_def path_join_def demo_world_def demo_features
        demo_sae_model load_adapter_def feature_list_def demo_target del: set_features.simps)

lemma demo_load_pinv:
  "load_pinv_steer demo_env ''cfg'' True demo_world =
     (Inr (Vec [2, 0], JStr ''blocks.12.hook_resid_post'', JInt 12),
      demo_world\<lparr>opened := [''cfg/optimised_steer.json'']\<rparr>)"
  unfolding load_pinv_steer_def
  by (simp add: io_bind_def io_pure_def demo_load_target demo_pinverse demo_features)






lemma demo_penrose: "penrose [[1, 0], [0, 1]] (linalg_pinv demo_env [[1, 0], [0, 1]])"
  by (simp add: penrose_def demo_env_def matmul_def mtranspose_def ncols_def column_def dot_def upt_rec)







subsection \<open>Outside the bounds, and feature entries of other types\<close>

text \<open>
  A norm that overflows in float32 and the norm 0 determine no vector, nor does a row
  scaled by a factor beyond the bound.
\<close>

lemma overflowed_norm_undetermined: "normalise (Vec [0, 10 ^ 20]) = Undetermined 2"
  by (simp add: normalise_def norm32_def bound32_def l2norm_pair_0)

lemma zero_norm_undetermined: "normalise (Vec [0, 0]) = Undetermined 2"
  by (simp add: normalise_def norm32_def bound32_def l2norm_pair_0)

lemma overflowed_row_undetermined:
  "and_then (feature_rows [[0, 1], [1, 0]] [JList [JInt 0, JFloat (10 ^ 20)]]) stack_sum =
     Inr (Undetermined 2)"
  by (simp add: feature_entry_def feature_id_def feature_scale_def pick_rows_def py_get_def
        py_index_def scale_pick_def tscale_def bounded_def bound32_def undetermined_def
        stack_sum_def numel_def row_vec_def)

text \<open>
  Booleans, \<^verbatim>\<open>null\<close> and lists of integers as feature ids, booleans as scales: the target
  of three zeros after \<^verbatim>\<open>[1, 5]\<close>, \<^verbatim>\<open>[true, true]\<close>, \<^verbatim>\<open>[false, 3]\<close> and \<^verbatim>\<open>[[0, -1], 4.0]\<close>,
  and the decoder indexed by \<^verbatim>\<open>true\<close>, which is no vector.
\<close>

lemma boolean_features_target:
  "set_features [0, 0, 0]
     [JList [JInt 1, JInt 5], JList [JBool True, JBool True], JList [JBool False, JInt 3],
      JList [JList [JInt 0, JInt (- 1)], JFloat 4]] = Inr [4, 1, 4]"
  by (simp add: feature_pair_def feature_entry_def feature_scale_def feature_id_def assign_def
        py_set_def py_index_def json_int_def)

lemma boolean_feature_rows:
  "and_then (feature_rows [[0, 1], [1, 0]] [JList [JBool True, JInt 2]]) stack_sum =
     Inr (Undetermined 4)"
  by (simp add: feature_entry_def feature_id_def feature_scale_def pick_rows_def scale_pick_def
        stack_sum_def ncols_def)

subsection \<open>Unit norm\<close>




lemma py_index_Inr:
  assumes "py_index k n = Inr j"
  shows "j < n \<and> (\<forall>i. (if k < 0 then int n + k else k) = int i \<longleftrightarrow> i = j)"
proof -
  define m where "m = (if k < 0 then int n + k else k)"
  from assms have r: "0 \<le> m" "m < int n" and j: "j = nat m"
    by (auto simp: py_index_def Let_def m_def split: if_splits)
  have "m = int i \<longleftrightarrow> i = nat m" for i
    using r by auto
  with r j show ?thesis
    unfolding m_def [symmetric] by auto
qed

lemma py_indices_Inr:
  "py_indices ks n = Inr js \<Longrightarrow>
   (\<forall>i. list_ex (\<lambda>k. (if k < 0 then int n + k else k) = int i) ks \<longleftrightarrow> i \<in> set js)"
proof (induction ks arbitrary: js)
  case Nil
  then show ?case by simp
next
  case (Cons k ks)
  from Cons.prems obtain j js' where
    j: "py_index k n = Inr j" and rest: "py_indices ks n = Inr js'" and js: "js = j # js'"
    by (auto simp: and_then_eq_Inr)
  from py_index_Inr [OF j] Cons.IH [OF rest] show ?case
    unfolding js by simp
qed

lemma fold_update_length: "length (fold (\<lambda>k t. t[k := s]) js t) = length t"
  by (induction js arbitrary: t) simp_all

lemma fold_update_nth:
  "i < length t \<Longrightarrow> fold (\<lambda>k t. t[k := s]) js t ! i = (if i \<in> set js then s else t ! i)"
proof (induction js arbitrary: t)
  case Nil
  then show ?case by simp
next
  case (Cons j js)
  then show ?case
    by (cases "i = j") (simp_all add: nth_list_update_neq)
qed

lemma assign_Inr:
  assumes "assign t ft_id s = Inr t1"
  shows "length t1 = length t \<and>
         (\<forall>i<length t. t1 ! i = (if addresses (length t) ft_id i then s else t ! i))"
proof (cases ft_id)
  case (Position k)
  with assms obtain j where j: "py_index k (length t) = Inr j" and t1: "t1 = t[j := s]"
    by (auto simp: assign_def py_set_def and_then_eq_Inr)
  from py_index_Inr [OF j] show ?thesis
    unfolding t1 Position by (auto simp: addresses_def nth_list_update)
next
  case (Several ks)
  with assms obtain js where
    js: "py_indices ks (length t) = Inr js" and t1: "t1 = fold (\<lambda>k t. t[k := s]) js t"
    by (auto simp: assign_def and_then_eq_Inr)
  from py_indices_Inr [OF js] show ?thesis
    unfolding t1 Several by (simp add: addresses_def fold_update_length fold_update_nth)
next
  case Everywhere
  with assms show ?thesis by (auto simp: assign_def addresses_def)
next
  case Nowhere
  with assms show ?thesis by (auto simp: assign_def addresses_def)
qed

lemma set_features_general:
  "set_features t js = Inr t' \<Longrightarrow>
   \<exists>fs. map feature_pair js = map Inr fs \<and> length t' = length t \<and>
     (\<forall>i<length t. t' ! i =
        (case filter (\<lambda>(k, s). addresses (length t) k i) (rev fs) of
           [] \<Rightarrow> t ! i | (k, s) # _ \<Rightarrow> s))"
proof (induction js arbitrary: t)
  case Nil
  then show ?case by simp
next
  case (Cons j js)
  from Cons.prems obtain k s t1 where
    fp: "feature_pair j = Inr (k, s)" and
    ps: "assign t k s = Inr t1" and
    rest: "set_features t1 js = Inr t'"
    by (auto simp: and_then_eq_Inr)
  from assign_Inr [OF ps] have
    len1: "length t1 = length t" and
    upd: "\<forall>i<length t. t1 ! i = (if addresses (length t) k i then s else t ! i)"
    by simp_all
  from Cons.IH [OF rest] obtain fs where
    fs: "map feature_pair js = map Inr fs" "length t' = length t1" and
    nth: "\<forall>i<length t1. t' ! i =
        (case filter (\<lambda>(k, s). addresses (length t1) k i) (rev fs) of
           [] \<Rightarrow> t1 ! i | (k, s) # _ \<Rightarrow> s)"
    by blast
  have "t' ! i =
        (case filter (\<lambda>(k, s). addresses (length t) k i) (rev ((k, s) # fs)) of
           [] \<Rightarrow> t ! i | (k, s) # _ \<Rightarrow> s)" if i: "i < length t" for i
  proof (cases "filter (\<lambda>(k, s). addresses (length t) k i) (rev fs)")
    case Nil
    with nth i len1 have "t' ! i = t1 ! i" by simp
    also have "\<dots> = (if addresses (length t) k i then s else t ! i)"
      using upd i by simp
    finally show ?thesis using Nil by simp
  next
    case (Cons x xs)
    with nth i len1 show ?thesis by (simp split: prod.splits)
  qed
  then show ?case
    using fp fs len1 by (intro exI [of _ "(k, s) # fs"]) simp
qed

lemma set_features_spec:
  assumes "set_features (replicate n 0) js = Inr target"
  shows "\<exists>fs. map feature_pair js = map Inr fs \<and> target = spec_target n fs"
proof -
  from set_features_general [OF assms] obtain fs where
    fs: "map feature_pair js = map Inr fs" and len: "length target = n" and
    nth: "\<forall>i<n. target ! i =
        (case filter (\<lambda>(k, s). addresses n k i) (rev fs) of
           [] \<Rightarrow> replicate n 0 ! i | (k, s) # _ \<Rightarrow> s)"
    by auto
  have "target = spec_target n fs"
  proof (rule nth_equalityI)
    show "length target = length (spec_target n fs)" by (simp add: len spec_target_def)
  next
    fix i assume "i < length target"
    then have i: "i < n" using len by simp
    with nth show "target ! i = spec_target n fs ! i"
      by (simp add: spec_target_def split: list.splits)
  qed
  with fs show ?thesis by blast
qed

lemma load_adapter_target_Inr:
  assumes "load_adapter_target ev path big w = (Inr (config, layer, adapter, target), w')"
  shows "\<exists>fs js features. json_key config ''features'' = Inr fs \<and> feature_list fs = Inr js \<and>
           map feature_pair js = map Inr features \<and>
           target = spec_target (ncols (W adapter)) features"
proof -
  from assms obtain fs js where
    "json_key config ''features'' = Inr fs" "feature_list fs = Inr js"
    "set_features (replicate (ncols (W adapter)) 0) js = Inr target"
    unfolding load_adapter_target_def
    by (auto simp: io_bind_eq_Inr io_pure_eq and_then_eq_Inr)
  then show ?thesis
    using set_features_spec by blast
qed

lemma tvecmat_Vec:
  assumes "tvecmat d M = Inr (Vec v)" and "v \<noteq> []"
  shows "\<exists>x. d = Vec x \<and> vecmat x M = Inr v"
  using assms
  by (cases d) (auto simp: tvecmat_def and_then_eq_Inr undetermined_def split: if_splits)

lemma tsub_Vec:
  assumes "tsub s t = Inr (Vec x)" and "x \<noteq> []"
  shows "\<exists>u v. s = Vec u \<and> t = Vec v \<and> vsub u v = Inr x"
  using assms
  by (cases s; cases t) (auto simp: tsub_def and_then_eq_Inr undetermined_def split: if_splits)

lemma vecmat_nonempty: "vecmat x M = Inr v \<Longrightarrow> v \<noteq> [] \<Longrightarrow> x \<noteq> []"
  by (auto simp: vecmat_def ncols_def split: if_splits)

lemma vsub_nonempty: "vsub u v = Inr x \<Longrightarrow> x \<noteq> [] \<Longrightarrow> u \<noteq> []"
  by (auto simp: vsub_def split: if_splits)

lemma tscale_one_Vec:
  assumes "tscale t 1 = Vec u" and "u \<noteq> []"
  shows "t = Vec u"
  using assms
  by (cases t) (auto simp: tscale_def vscale_def undetermined_def split: if_splits)

lemma normalise_Vec:
  assumes "normalise (Vec t) = Vec u" and "u \<noteq> []"
  shows "u = map (\<lambda>x. x / l2norm t) t \<and> 1 / bound32 \<le> l2norm t \<and> l2norm t \<le> bound32"
  using assms
  by (auto simp: normalise_def norm32_def split: if_splits option.splits)

lemma pinverse_steer_Vec:
  assumes "pinverse_steer pinv adapter target 1 = Inr (Vec v)" and "v \<noteq> []"
  shows "\<exists>unit. unit = map (\<lambda>x. x / l2norm target) target \<and>
           1 / bound32 \<le> l2norm target \<and> l2norm target \<le> bound32 \<and>
           spec_pinv_solution unit (b adapter) (pinv (W adapter)) = Inr v"
proof -
  from assms(1) obtain d where
    d: "tsub (tscale (normalise (Vec target)) 1) (Vec (b adapter)) = Inr d" and
    m: "tvecmat d (pinv (W adapter)) = Inr (Vec v)"
    unfolding pinverse_steer_def by (auto simp: and_then_eq_Inr Let_def)
  from tvecmat_Vec [OF m assms(2)] obtain x where
    x: "d = Vec x" "vecmat x (pinv (W adapter)) = Inr v"
    by blast
  from vecmat_nonempty [OF x(2) assms(2)] have xne: "x \<noteq> []" .
  with tsub_Vec [of "tscale (normalise (Vec target)) 1" "Vec (b adapter)" x] d x(1)
  obtain u where u: "tscale (normalise (Vec target)) 1 = Vec u" "vsub u (b adapter) = Inr x"
    by auto
  from vsub_nonempty [OF u(2) xne] have une: "u \<noteq> []" .
  from tscale_one_Vec [OF u(1) une] have "normalise (Vec target) = Vec u" .
  from normalise_Vec [OF this une] u(2) x(2) show ?thesis
    by (auto simp: spec_pinv_solution_def)
qed

subsection \<open>The pseudo-inverse derivation\<close>

text \<open>
  C6, as the code has it, in exact arithmetic. \<open>load_pinv_steer\<close> builds its feature-space
  target with the very lines of \<open>load_optimised_steer\<close>, which is run on the same target:
  zeros with the configured scale at each configured feature id. It then divides the
  target by its norm and returns the solution \<open>(target / \<parallel>target\<parallel> - bias) \<cdot> pinv(W)\<close>, with
  the pseudo-inverse of the adapter's weight matrix. This is shown for every vector with
  an entry that the loader returns and exact arithmetic determines; the norm of the
  target then lies between \<open>1 / 2 ^ 40\<close> and \<open>2 ^ 40\<close>, where float32 neither overflows nor
  underflows. The code's float32 vector is this one up to rounding.
\<close>

theorem pinv_derivation:
  assumes "load_pinv_steer ev path big w = (Inr (Vec v, hp, layer), w')" and "v \<noteq> []"
  shows "\<exists>config adapter fs js features target unit.
     load_adapter_target ev path big w = (Inr (config, layer, adapter, target), w') \<and>
     json_key config ''features'' = Inr fs \<and> feature_list fs = Inr js \<and>
     map feature_pair js = map Inr features \<and>
     target = spec_target (ncols (W adapter)) features \<and>
     fst (load_optimised_steer ev path big w) =
       and_then (single_step_steer adapter target 1) (\<lambda>v.
       and_then (json_key config ''hp'') (\<lambda>hp. Inr (v, hp, layer))) \<and>
     1 / bound32 \<le> l2norm target \<and> l2norm target \<le> bound32 \<and>
     unit = map (\<lambda>x. x / l2norm target) target \<and>
     spec_pinv_solution unit (b adapter) (linalg_pinv ev (W adapter)) = Inr v"
proof -
  from assms(1) obtain config adapter target where
    lt: "load_adapter_target ev path big w = (Inr (config, layer, adapter, target), w')" and
    ps: "pinverse_steer (linalg_pinv ev) adapter target 1 = Inr (Vec v)"
    unfolding load_pinv_steer_def
    by (auto simp: io_bind_eq_Inr io_pure_eq and_then_eq_Inr)
  from load_adapter_target_Inr [OF lt] obtain fs js features where
    f: "json_key config ''features'' = Inr fs" "feature_list fs = Inr js"
      "map feature_pair js = map Inr features"
      "target = spec_target (ncols (W adapter)) features"
    by blast
  from pinverse_steer_Vec [OF ps assms(2)] obtain unit where
    u: "unit = map (\<lambda>x. x / l2norm target) target"
      "1 / bound32 \<le> l2norm target" "l2norm target \<le> bound32"
      "spec_pinv_solution unit (b adapter) (linalg_pinv ev (W adapter)) = Inr v"
    by blast
  have opt: "fst (load_optimised_steer ev path big w) =
       and_then (single_step_steer adapter target 1) (\<lambda>v.
       and_then (json_key config ''hp'') (\<lambda>hp. Inr (v, hp, layer)))"
    unfolding load_optimised_steer_def by (simp add: io_bind_def io_pure_def lt)
  show ?thesis
    using lt f u opt by blast
qed

theorem pinv_derivation_witness:
  "load_pinv_steer demo_env ''cfg'' True demo_world =
     (Inr (Vec [2, 0], JStr ''blocks.12.hook_resid_post'', JInt 12),
      demo_world\<lparr>opened := [''cfg/optimised_steer.json'']\<rparr>) \<and>
   (\<exists>config adapter fs js features target unit.
     load_adapter_target demo_env ''cfg'' True demo_world =
       (Inr (config, JInt 12, adapter, target),
        demo_world\<lparr>opened := [''cfg/optimised_steer.json'']\<rparr>) \<and>
     json_key config ''features'' = Inr fs \<and> feature_list fs = Inr js \<and>
     map feature_pair js = map Inr features \<and>
     target = spec_target (ncols (W adapter)) features \<and>
     fst (load_optimised_steer demo_env ''cfg'' True demo_world) =
       and_then (single_step_steer adapter target 1) (\<lambda>v.
       and_then (json_key config ''hp'') (\<lambda>hp. Inr (v, hp, JInt 12))) \<and>
     1 / bound32 \<le> l2norm target \<and> l2norm target \<le> bound32 \<and>
     unit = map (\<lambda>x. x / l2norm target) target \<and>
     spec_pinv_solution unit (b adapter) (linalg_pinv demo_env (W adapter)) = Inr [2, 0])"
proof -
  have ne: "[2, 0] \<noteq> ([] :: real list)" by simp
  show ?thesis
    using pinv_derivation [OF demo_load_pinv ne] demo_load_pinv by blast
qed

text \<open>
  The vector returned is not \<open>(target - bias) \<cdot> pinv(W)\<close>: on the concrete world the target
  is (2, 0), the bias (-1, 0) and the weight matrix the identity, so that formula gives
  (3, 0), while the loader returns (2, 0). The numbers involved are small integers, which
  float32 holds exactly.
\<close>

theorem pinv_solution_of_unnormalised_target_differs:
  "load_adapter_target demo_env ''cfg'' True demo_world =
     (Inr (demo_config, JInt 12, \<lparr>W = [[1, 0], [0, 1]], b = [- 1, 0]\<rparr>, [2, 0]),
      demo_world\<lparr>opened := [''cfg/optimised_steer.json'']\<rparr>) \<and>
   penrose [[1, 0], [0, 1]] (linalg_pinv demo_env [[1, 0], [0, 1]]) \<and>
   spec_target 2 [(Position 0, 2)] = [2, 0] \<and>
   spec_pinv_solution [2, 0] [- 1, 0] (linalg_pinv demo_env [[1, 0], [0, 1]]) = Inr [3, 0] \<and>
   fst (load_pinv_steer demo_env ''cfg'' True demo_world) =
     Inr (Vec [2, 0], JStr ''blocks.12.hook_resid_post'', JInt 12) \<and>
   [2, 0] \<noteq> [3, 0 :: real]"
proof -
  have "spec_target 2 [(Position 0, 2)] = [2, 0]"
    by (simp add: spec_target_def addresses_def upt_rec)
  moreover have "spec_pinv_solution [2, 0] [- 1, 0] (linalg_pinv demo_env [[1, 0], [0, 1]]) = Inr [3, 0]"
    by (simp add: spec_pinv_solution_def vsub_def vecmat_def demo_env_def ncols_def column_def
          dot_def upt_rec)
  ultimately show ?thesis
    using demo_load_target demo_penrose by (simp add: demo_load_pinv)
qed

end
